theory Spec2Isabelle
  imports Main "HOL-Library.Word"
begin

section \<open>Python values\<close>

text \<open>
  A Python \<open>str\<close> is a sequence of Unicode code points, so it is a list of naturals
  (the configured character set holds U+00A3, U+20AC and U+FFFD, which are no bytes).
  \<open>str\<close> turns an ASCII literal into such a string. The contents of a file are bytes.
\<close>

type_synonym pystr = "nat list"
type_synonym bytes = "8 word list"

definition str :: "string \<Rightarrow> pystr" where
  "str s = map of_char s"

datatype py_error =
    KeyError | TypeError | ValueError | FileNotFoundError | CalledProcessError
  | SameFileError | BadZipFile | JSONDecodeError | UnicodeEncodeError | AttributeError
  | OSError

text \<open>\<open>a in b\<close> on two strings is the substring test.\<close>

fun startswith :: "pystr \<Rightarrow> pystr \<Rightarrow> bool" where
  "startswith s [] = True"
| "startswith [] (p # ps) = False"
| "startswith (c # cs) (p # ps) = (c = p \<and> startswith cs ps)"

fun str_in :: "pystr \<Rightarrow> pystr \<Rightarrow> bool" where
  "str_in sub [] = (sub = [])"
| "str_in sub (c # cs) = (startswith (c # cs) sub \<or> str_in sub cs)"

text \<open>
  What the program reads of the Unicode Character Database, which is no part of it: the
  name of a code point (\<open>unicodedata.name\<close>), and, behind \<open>str.lower()\<close>, the full
  lowercase mapping of a code point, which can be several code points, and the
  properties Cased and Case_Ignorable.
\<close>

record unicode_data =
  uname :: "nat \<rightharpoonup> pystr"
  tolower :: "nat \<Rightarrow> pystr"
  cased :: "nat \<Rightarrow> bool"
  case_ignorable :: "nat \<Rightarrow> bool"

text \<open>
  \<open>str.lower()\<close>. On the ASCII range the letters A to Z move to a to z and nothing else
  changes; a code point from 128 on is replaced by its full lowercase mapping. The one
  code point whose image depends on its neighbours is the capital sigma, U+03A3: it
  becomes the final sigma U+03C2 when a cased character comes before it, case-ignorable
  characters skipped, and none comes after it, and the small sigma U+03C3 otherwise.
  \<open>lower_from\<close> walks the string with the characters already passed, the nearest first.
\<close>

definition lower_cp :: "nat \<Rightarrow> nat" where
  "lower_cp c = (if 65 \<le> c \<and> c \<le> 90 then c + 32 else c)"

definition lower_full :: "unicode_data \<Rightarrow> nat \<Rightarrow> pystr" where
  "lower_full db c = (if c < 128 then [lower_cp c] else tolower db c)"

definition final_sigma :: "unicode_data \<Rightarrow> pystr \<Rightarrow> pystr \<Rightarrow> bool" where
  "final_sigma db before after =
     (case dropWhile (case_ignorable db) before of
        [] \<Rightarrow> False
      | b # _ \<Rightarrow>
          cased db b \<and>
          (case dropWhile (case_ignorable db) after of
             [] \<Rightarrow> True
           | a # _ \<Rightarrow> \<not> cased db a))"

fun lower_from :: "unicode_data \<Rightarrow> pystr \<Rightarrow> pystr \<Rightarrow> pystr" where
  "lower_from db before [] = []"
| "lower_from db before (c # cs) =
     (if c = 931 then [if final_sigma db before cs then 962 else 963] else lower_full db c)
     @ lower_from db (c # before) cs"

definition lower :: "unicode_data \<Rightarrow> pystr \<Rightarrow> pystr" where
  "lower db s = lower_from db [] s"

text \<open>\<open>s.replace(a, b)\<close> for one-character \<open>a\<close> and \<open>b\<close>.\<close>

definition replace :: "nat \<Rightarrow> nat \<Rightarrow> pystr \<Rightarrow> pystr" where
  "replace a b s = map (\<lambda>c. if c = a then b else c) s"

section \<open>The identifier deriver: \<open>name_for\<close>\<close>

text \<open>
  \<open>unicodedata.name\<close> raises TypeError unless its argument is a string of length one
  and ValueError when the code point has no name.
\<close>

definition unicodedata_name :: "unicode_data \<Rightarrow> pystr \<Rightarrow> py_error + pystr" where
  "unicodedata_name db character =
     (case character of
        [c] \<Rightarrow> (case uname db c of None \<Rightarrow> Inl ValueError | Some n \<Rightarrow> Inr n)
      | _ \<Rightarrow> Inl TypeError)"

definition lowers_digits :: pystr where
  "lowers_digits = str ''abcdefghijklmnopqrstuvwxyz0123456789''"

definition uppers :: pystr where
  "uppers = str ''ABCDEFGHIJKLMNOPQRSTUVWXYZ''"

definition name_for :: "unicode_data \<Rightarrow> pystr \<Rightarrow> pystr \<Rightarrow> py_error + pystr" where
  "name_for db font_id character =
     (if str_in character lowers_digits
      then Inr (lower db (font_id @ str ''-'' @ character))
      else if str_in character uppers
      then Inr (font_id @ str ''-upper-'' @ character)
      else (case unicodedata_name db character of
              Inl e \<Rightarrow> Inl e
            | Inr name \<Rightarrow>
                Inr (lower db (font_id @ str ''-special-''
                       @ replace 32 45 (replace 95 45 (lower db name))))))"

text \<open>
  An excerpt of the database: the names it gives to the code points of the configured
  character set that are no letters or digits, and to U+FFFD (the control characters,
  U+0000 among them, have no name); the lowercase mappings of four capital letters
  beyond ASCII, the last of which has two code points; no cased or case-ignorable
  character. Beyond these entries the excerpt is a stand-in.
\<close>

definition ucd_names :: "(nat \<times> string) list" where
  "ucd_names =
    [(32, ''SPACE''), (33, ''EXCLAMATION MARK''), (34, ''QUOTATION MARK''),
     (35, ''NUMBER SIGN''), (36, ''DOLLAR SIGN''), (37, ''PERCENT SIGN''),
     (38, ''AMPERSAND''), (39, ''APOSTROPHE''), (40, ''LEFT PARENTHESIS''),
     (41, ''RIGHT PARENTHESIS''), (42, ''ASTERISK''), (43, ''PLUS SIGN''),
     (44, ''COMMA''), (45, ''HYPHEN-MINUS''), (46, ''FULL STOP''), (47, ''SOLIDUS''),
     (58, ''COLON''), (59, ''SEMICOLON''), (60, ''LESS-THAN SIGN''),
     (61, ''EQUALS SIGN''), (62, ''GREATER-THAN SIGN''), (63, ''QUESTION MARK''),
     (64, ''COMMERCIAL AT''), (91, ''LEFT SQUARE BRACKET''), (92, ''REVERSE SOLIDUS''),
     (93, ''RIGHT SQUARE BRACKET''), (94, ''CIRCUMFLEX ACCENT''), (95, ''LOW LINE''),
     (96, ''GRAVE ACCENT''), (123, ''LEFT CURLY BRACKET''), (124, ''VERTICAL LINE''),
     (125, ''RIGHT CURLY BRACKET''), (126, ''TILDE''), (163, ''POUND SIGN''),
     (8364, ''EURO SIGN''), (65533, ''REPLACEMENT CHARACTER'')]"

definition ucd_lowercase :: "(nat \<times> pystr) list" where
  "ucd_lowercase = [(196, [228]), (214, [246]), (220, [252]), (304, [105, 775])]"

definition ucd_excerpt :: unicode_data where
  "ucd_excerpt =
     \<lparr>uname = (\<lambda>c. map_option str (map_of ucd_names c)),
      tolower = (\<lambda>c. case map_of ucd_lowercase c of None \<Rightarrow> [c] | Some l \<Rightarrow> l),
      cased = (\<lambda>c. False),
      case_ignorable = (\<lambda>c. False)\<rparr>"

section \<open>JSON values and dictionaries\<close>

text \<open>
  The manifest and the costume descriptors are Python dictionaries, lists, strings and
  numbers as \<open>json.load\<close> builds them. A dictionary keeps its keys in insertion order:
  it is an association list. A float is never inspected by the program and is kept as
  its literal.
\<close>

datatype json =
    JNull | JBool bool | JInt int | JFloat string | JStr pystr
  | JArr "json list" | JObj "(pystr \<times> json) list"

text \<open>\<open>d[key]\<close> with a string key: only a dictionary can be read that way.\<close>

fun getitem :: "json \<Rightarrow> pystr \<Rightarrow> py_error + json" where
  "getitem (JObj kvs) key = (case map_of kvs key of None \<Rightarrow> Inl KeyError | Some v \<Rightarrow> Inr v)"
| "getitem _ key = Inl TypeError"

text \<open>
  \<open>d[key] = v\<close>: an existing key keeps its place and takes the new value, a new key goes
  to the end.
\<close>

fun dict_set :: "pystr \<Rightarrow> json \<Rightarrow> (pystr \<times> json) list \<Rightarrow> (pystr \<times> json) list" where
  "dict_set key v [] = [(key, v)]"
| "dict_set key v ((k, w) # kvs) =
     (if k = key then (k, v) # kvs else (k, w) # dict_set key v kvs)"

fun setitem :: "json \<Rightarrow> pystr \<Rightarrow> json \<Rightarrow> py_error + json" where
  "setitem (JObj kvs) key v = Inr (JObj (dict_set key v kvs))"
| "setitem _ key v = Inl TypeError"

text \<open>
  \<open>for x in v\<close>: a list gives its elements, a dictionary its keys, a string its
  characters; nothing else can be iterated.
\<close>

fun iterate :: "json \<Rightarrow> py_error + json list" where
  "iterate (JArr xs) = Inr xs"
| "iterate (JObj kvs) = Inr (map (\<lambda>kv. JStr (fst kv)) kvs)"
| "iterate (JStr s) = Inr (map (\<lambda>c. JStr [c]) s)"
| "iterate _ = Inl TypeError"

section \<open>Configuration\<close>

record raster_font =
  rid :: pystr
  filename :: pystr

record vector_font =
  vid :: pystr
  fontname :: pystr

definition raster_fonts :: "raster_font list" where
  "raster_fonts =
    [\<lparr>rid = str ''sans'', filename = str ''/usr/share/fonts/truetype/dejavu/DejaVuSans.ttf''\<rparr>,
     \<lparr>rid = str ''mono'',
      filename = str ''/usr/share/fonts/truetype/ttf-bitstream-vera/VeraMono.ttf''\<rparr>,
     \<lparr>rid = str ''decor'', filename = str ''/usr/share/fonts/truetype/aenigma/hillock.ttf''\<rparr>,
     \<lparr>rid = str ''scrawl'', filename = str ''/usr/share/fonts/truetype/aenigma/aescrawl.ttf''\<rparr>]"

definition vector_fonts :: "vector_font list" where
  "vector_fonts =
    [\<lparr>vid = str ''handwriting'', fontname = str ''Handwriting''\<rparr>,
     \<lparr>vid = str ''sans-serif'', fontname = str ''Sans Serif''\<rparr>,
     \<lparr>vid = str ''serif'', fontname = str ''Serif''\<rparr>,
     \<lparr>vid = str ''curly'', fontname = str ''Curly''\<rparr>,
     \<lparr>vid = str ''marker'', fontname = str ''Marker''\<rparr>,
     \<lparr>vid = str ''pixel'', fontname = str ''Pixel''\<rparr>]"

text \<open>
  The character set of both scripts: the letters, the digits and
  \<^verbatim>\<open>`~!@#$\<close>, U+20AC, U+00A3, \<^verbatim>\<open>%^&*()-_=+[{]}\|;:'"<,>.?/\<close> and the space.
\<close>

definition characters :: pystr where
  "characters =
     str ''abcdefghijklmnopqrstuvwxyz'' @ str ''ABCDEFGHIJKLMNOPQRSTUVWXYZ'' @
     str ''0123456789'' @
     [96, 126, 33, 64, 35, 36, 8364, 163, 37, 94, 38, 42, 40, 41, 45, 95, 61, 43, 91, 123,
      93, 125, 92, 124, 59, 58, 39, 34, 60, 44, 62, 46, 63, 47, 32]"

definition raster_width :: int where
  "raster_width = 60 * 4"

definition raster_height :: int where
  "raster_height = 80 * 4"

definition vector_width :: int where
  "vector_width = 40"

definition vector_height :: int where
  "vector_height = 50"

definition replacement_font :: pystr where
  "replacement_font = str ''/usr/share/fonts/truetype/dejavu/DejaVuSans.ttf''"

definition replacement_character :: pystr where
  "replacement_character = [65533]"

text \<open>
  \<open>label_specials\<close>: the space is written backslash, space and the backslash is written
  twice.
\<close>

definition label_specials :: "(pystr \<times> pystr) list" where
  "label_specials = [([32], str ''label:'' @ [92, 32]), ([92], str ''label:'' @ [92, 92])]"

text \<open>\<open>d.get(key, default)\<close> on a dictionary from strings to strings.\<close>

definition dict_get :: "(pystr \<times> pystr) list \<Rightarrow> pystr \<Rightarrow> pystr \<Rightarrow> pystr" where
  "dict_get d key dflt = (case map_of d key of None \<Rightarrow> dflt | Some v \<Rightarrow> v)"

text \<open>
  Both scripts keep their scratch file and the staged files in one temporary directory;
  \<open>main\<close> names the scratch file \<open>tmp.png\<close> in both. A file is named here by its name
  inside that directory.
\<close>

definition temp_png :: pystr where
  "temp_png = str ''tmp.png''"

definition temp_svg :: pystr where
  "temp_svg = str ''tmp.png''"

section \<open>Numbers in text\<close>

text \<open>An integer that is not negative, in an f-string.\<close>

fun decimal :: "nat \<Rightarrow> pystr" where
  "decimal n = (if n < 10 then [48 + n] else decimal (n div 10) @ [48 + n mod 10])"

declare decimal.simps [simp del]

text \<open>
  \<open>int(a / b)\<close>: the true quotient, truncated towards zero (the values here are small,
  so the float in between is exact).
\<close>

definition int_truediv :: "int \<Rightarrow> int \<Rightarrow> int" where
  "int_truediv a b = sgn a * sgn b * (\<bar>a\<bar> div \<bar>b\<bar>)"

section \<open>The vector renderer: \<open>svg_letter\<close>\<close>

definition replacements :: "(pystr \<times> pystr) list" where
  "replacements = [(str ''&'', str ''&amp;''), (str ''<'', str ''&lt;''), (str ''>'', str ''&gt;'')]"

text \<open>
  The f-string of \<open>svg_letter\<close>. Its fields \<open>{width/2}\<close> and \<open>{height*0.75}\<close> are floats;
  with the width 40 and the height 50 of the script they print as \<open>20.0\<close> and \<open>37.5\<close>.
\<close>

definition svg_letter :: "pystr \<Rightarrow> pystr \<Rightarrow> pystr" where
  \<open>svg_letter character font =
    (let character = (case map_of replacements character of
                        Some r \<Rightarrow> r | None \<Rightarrow> character)
     in
      str ''\<newline>        <svg version="1.1"'' @
      str ''\<newline>            xmlns="http://www.w3.org/2000/svg"'' @
      str ''\<newline>            xmlns:xlink="http://www.w3.org/1999/xlink" width="'' @
      decimal (nat vector_width) @ str ''" height="'' @ decimal (nat vector_height) @
      str ''" viewBox="0,0,'' @ decimal (nat vector_width) @ str '','' @
      decimal (nat vector_height) @ str ''">'' @
      str ''\<newline>            <text x="'' @ str ''20.0'' @ str ''" y="'' @ str ''37.5'' @
      str ''" font-size="40" xml:space="preserve" fill="#000000" fill-rule="nonzero"'' @
      str ''\<newline>                stroke="none" stroke-width="1" stroke-linecap="butt" stroke-linejoin="miter" stroke-miterlimit="10" stroke-dasharray="" stroke-dashoffset="0"'' @
      str ''\<newline>                font-family="'' @ font @
      str ''" font-weight="normal" text-anchor="middle" style="mix-blend-mode: normal">'' @
      character @ str ''</text>'' @
      str ''\<newline>        </svg>'' @
      str ''\<newline>        '')\<close>

text \<open>
  The file is opened for text with the encoding UTF-8. A surrogate code point cannot be
  encoded (UnicodeEncodeError).
\<close>

definition utf8_cp :: "nat \<Rightarrow> bytes option" where
  "utf8_cp c =
     (if c < 0x80 then Some [of_nat c]
      else if c < 0x800 then Some [of_nat (0xC0 + c div 64), of_nat (0x80 + c mod 64)]
      else if 0xD800 \<le> c \<and> c \<le> 0xDFFF then None
      else if c < 0x10000
      then Some [of_nat (0xE0 + c div 4096), of_nat (0x80 + c div 64 mod 64),
                 of_nat (0x80 + c mod 64)]
      else if c < 0x110000
      then Some [of_nat (0xF0 + c div 262144), of_nat (0x80 + c div 4096 mod 64),
                 of_nat (0x80 + c div 64 mod 64), of_nat (0x80 + c mod 64)]
      else None)"

fun utf8_encode :: "pystr \<Rightarrow> bytes option" where
  "utf8_encode [] = Some []"
| "utf8_encode (c # cs) =
     (case utf8_cp c of
        None \<Rightarrow> None
      | Some b \<Rightarrow> (case utf8_encode cs of None \<Rightarrow> None | Some bs \<Rightarrow> Some (b @ bs)))"

section \<open>Entries of an archive\<close>

datatype compression = ZIP_STORED | ZIP_DEFLATED

record zip_entry =
  arcname :: pystr
  data :: bytes
  compress_type :: compression

datatype disk_file = Zip "zip_entry list" | NotZip

section \<open>What the scripts take from outside\<close>

text \<open>
  The Unicode Character Database, the ImageMagick program \<open>convert\<close> (from its
  argument list to the bytes of the image it writes, or nothing when it exits with an
  error), \<open>hashlib.md5(...).hexdigest()\<close>, the parser and the printer of the \<open>json\<close>
  module, and what \<open>archive.write\<close> does with a path that is no name of a file of the
  temporary directory (see \<open>archive_write\<close>).
\<close>

record externals =
  ucd :: unicode_data
  convert :: "pystr list \<Rightarrow> bytes option"
  hexdigest :: "bytes \<Rightarrow> pystr"
  json_loads :: "bytes \<Rightarrow> json option"
  json_dumps :: "json \<Rightarrow> bytes"
  other_path :: "pystr \<Rightarrow> py_error + zip_entry"

section \<open>Files of the temporary directory\<close>

text \<open>
  The temporary directory is a map from a file name to the bytes of the file. A step of
  a script takes the directory and returns its result, an error or a value, with the
  directory as the step leaves it.
\<close>

type_synonym directory = "pystr \<rightharpoonup> bytes"
type_synonym 'a action = "directory \<Rightarrow> (py_error + 'a) \<times> directory"

definition md5sum_file :: "externals \<Rightarrow> directory \<Rightarrow> pystr \<Rightarrow> py_error + pystr" where
  "md5sum_file ext dir name =
     (case dir name of None \<Rightarrow> Inl FileNotFoundError | Some b \<Rightarrow> Inr (hexdigest ext b))"

text \<open>\<open>shutil.copy\<close> refuses to copy a file onto itself.\<close>

definition shutil_copy :: "directory \<Rightarrow> pystr \<Rightarrow> pystr \<Rightarrow> py_error + directory" where
  "shutil_copy dir src dst =
     (if src = dst then Inl SameFileError
      else case dir src of
             None \<Rightarrow> Inl FileNotFoundError
           | Some b \<Rightarrow> Inr (dir(dst \<mapsto> b)))"

section \<open>The glyph generator\<close>

subsection \<open>Raster\<close>

definition convert_argv :: "pystr \<Rightarrow> pystr \<Rightarrow> pystr list" where
  "convert_argv font label =
     [str ''convert'',
      str ''-font'', font,
      str ''-size'', decimal (nat raster_width) @ str ''x'' @ decimal (nat raster_height),
      str ''-background'', str ''none'',
      str ''-gravity'', str ''center'',
      label,
      temp_png]"

definition raster_costume :: "pystr \<Rightarrow> pystr \<Rightarrow> json" where
  "raster_costume md5hash name =
     JObj [(str ''assetId'', JStr md5hash),
           (str ''name'', JStr name),
           (str ''bitmapResolution'', JInt 2),
           (str ''md5ext'', JStr (md5hash @ str ''.png'')),
           (str ''dataFormat'', JStr (str ''png'')),
           (str ''rotationCenterX'', JInt (int_truediv raster_width 2)),
           (str ''rotationCenterY'', JInt (int_truediv raster_height 2))]"

text \<open>
  \<open>convert\<close> writes the image to the scratch file; the file is hashed and copied to the
  name made of its digest.
\<close>

definition raster_generate_glyph ::
  "externals \<Rightarrow> pystr \<Rightarrow> pystr \<Rightarrow> pystr \<Rightarrow> json action" where
  "raster_generate_glyph ext font name label dir =
     (case convert ext (convert_argv font label) of
        None \<Rightarrow> (Inl CalledProcessError, dir)
      | Some png \<Rightarrow>
          (let dir1 = dir(temp_png \<mapsto> png) in
           case md5sum_file ext dir1 temp_png of
             Inl e \<Rightarrow> (Inl e, dir1)
           | Inr md5hash \<Rightarrow>
               (case shutil_copy dir1 temp_png (md5hash @ str ''.png'') of
                  Inl e \<Rightarrow> (Inl e, dir1)
                | Inr dir2 \<Rightarrow> (Inr (raster_costume md5hash name), dir2))))"

subsection \<open>Vector\<close>

definition vector_costume :: "pystr \<Rightarrow> pystr \<Rightarrow> json" where
  "vector_costume md5hash name =
     JObj [(str ''assetId'', JStr md5hash),
           (str ''name'', JStr name),
           (str ''md5ext'', JStr (md5hash @ str ''.svg'')),
           (str ''dataFormat'', JStr (str ''svg'')),
           (str ''rotationCenterX'', JInt (int_truediv vector_width 2)),
           (str ''rotationCenterY'', JInt (int_truediv vector_height 2))]"

text \<open>
  The SVG document is written to the scratch file. When it cannot be encoded the file has
  been opened, so it is there and empty.
\<close>

definition vector_generate_glyph ::
  "externals \<Rightarrow> pystr \<Rightarrow> pystr \<Rightarrow> pystr \<Rightarrow> json action" where
  "vector_generate_glyph ext font name character dir =
     (case utf8_encode (svg_letter character font) of
        None \<Rightarrow> (Inl UnicodeEncodeError, dir(temp_svg \<mapsto> []))
      | Some svg \<Rightarrow>
          (let dir1 = dir(temp_svg \<mapsto> svg) in
           case md5sum_file ext dir1 temp_svg of
             Inl e \<Rightarrow> (Inl e, dir1)
           | Inr md5hash \<Rightarrow>
               (case shutil_copy dir1 temp_svg (md5hash @ str ''.svg'') of
                  Inl e \<Rightarrow> (Inl e, dir1)
                | Inr dir2 \<Rightarrow> (Inr (vector_costume md5hash name), dir2))))"

section \<open>The glyph stream\<close>

text \<open>
  \<open>generate_glyphs\<close> is a generator: nothing of it runs until the consumer asks for the
  next item. It is the list of its steps, one for each \<open>yield\<close>, in the order of the two
  loops. The arguments of a call are evaluated before the call, so a character without
  a name fails in \<open>name_for\<close> and nothing is rendered for it.
\<close>

definition raster_generate_glyphs ::
  "externals \<Rightarrow> raster_font list \<Rightarrow> pystr \<Rightarrow> json action list" where
  "raster_generate_glyphs ext fonts chars =
     concat (map (\<lambda>font.
         raster_generate_glyph ext replacement_font
           (rid font @ str ''-replaceable'')
           (str ''label:'' @ replacement_character)
       # map (\<lambda>character dir.
                case name_for (ucd ext) (rid font) [character] of
                  Inl e \<Rightarrow> (Inl e, dir)
                | Inr name \<Rightarrow>
                    raster_generate_glyph ext (filename font) name
                      (dict_get label_specials [character] (str ''label:'' @ [character]))
                      dir)
             chars)
       fonts)"

definition vector_generate_glyphs ::
  "externals \<Rightarrow> vector_font list \<Rightarrow> pystr \<Rightarrow> json action list" where
  "vector_generate_glyphs ext fonts chars =
     concat (map (\<lambda>font.
         vector_generate_glyph ext (fontname font)
           (vid font @ str ''-replaceable'')
           [65533]
       # map (\<lambda>character dir.
                case name_for (ucd ext) (vid font) [character] of
                  Inl e \<Rightarrow> (Inl e, dir)
                | Inr name \<Rightarrow>
                    vector_generate_glyph ext (fontname font) name [character] dir)
             chars)
       fonts)"

text \<open>
  The consumer, \<open>for costume in generate_glyphs()\<close>: the steps run in order until one
  raises. The result is the list of the items yielded so far, the error if there is one,
  and the directory.
\<close>

fun pull :: "'a action list \<Rightarrow> directory \<Rightarrow> ('a list \<times> py_error option) \<times> directory" where
  "pull [] dir = (([], None), dir)"
| "pull (g # gs) dir =
     (case g dir of
        (Inl e, dir') \<Rightarrow> (([], Some e), dir')
      | (Inr x, dir') \<Rightarrow>
          (case pull gs dir' of ((xs, r), dir'') \<Rightarrow> ((x # xs, r), dir'')))"

section \<open>The archive\<close>

text \<open>\<open>archive.read(name)\<close>: the last entry of that name, KeyError when there is none.\<close>

definition zip_read :: "zip_entry list \<Rightarrow> pystr \<Rightarrow> py_error + bytes" where
  "zip_read entries name =
     (case filter (\<lambda>e. arcname e = name) entries of
        [] \<Rightarrow> Inl KeyError
      | e # es \<Rightarrow> Inr (data (last (e # es))))"

definition load_sprite_code :: "externals \<Rightarrow> disk_file option \<Rightarrow> py_error + json" where
  "load_sprite_code ext sprite3 =
     (case sprite3 of
        None \<Rightarrow> Inl FileNotFoundError
      | Some NotZip \<Rightarrow> Inl BadZipFile
      | Some (Zip archive) \<Rightarrow>
          (case zip_read archive (str ''sprite.json'') of
             Inl e \<Rightarrow> Inl e
           | Inr b \<Rightarrow>
               (case json_loads ext b of
                  None \<Rightarrow> Inl JSONDecodeError
                | Some sprite \<Rightarrow>
                    (case setitem sprite (str ''costumes'') (JArr []) of
                       Inl e \<Rightarrow> Inl e
                     | Inr sprite1 \<Rightarrow>
                         (case setitem sprite1 (str ''current_costume'') (JInt 0) of
                            Inl e \<Rightarrow> Inl e
                          | Inr sprite2 \<Rightarrow> setitem sprite2 (str ''sounds'') (JArr []))))))"

text \<open>
  \<open>sprite['costumes'].append(costume)\<close>, the body of the loop of \<open>main\<close>, and the loop
  over the costumes the generator yields.
\<close>

definition append_costume :: "json \<Rightarrow> json \<Rightarrow> py_error + json" where
  "append_costume sprite costume =
     (case getitem sprite (str ''costumes'') of
        Inl e \<Rightarrow> Inl e
      | Inr (JArr xs) \<Rightarrow> setitem sprite (str ''costumes'') (JArr (xs @ [costume]))
      | Inr _ \<Rightarrow> Inl AttributeError)"

fun append_costumes :: "json \<Rightarrow> json list \<Rightarrow> py_error + json" where
  "append_costumes sprite [] = Inr sprite"
| "append_costumes sprite (c # cs) =
     (case append_costume sprite c of
        Inl e \<Rightarrow> Inl e
      | Inr sprite' \<Rightarrow> append_costumes sprite' cs)"

text \<open>
  A name of a file: one path component that the file system takes. It is not empty, it
  is not \<open>.\<close> or \<open>..\<close>, it has no slash and no NUL, and its UTF-8 encoding has at most
  255 bytes.
\<close>

definition file_name :: "pystr \<Rightarrow> bool" where
  "file_name m =
     (m \<noteq> [] \<and> m \<noteq> str ''.'' \<and> m \<noteq> str ''..'' \<and> 47 \<notin> set m \<and> 0 \<notin> set m \<and>
      (case utf8_encode m of None \<Rightarrow> False | Some b \<Rightarrow> length b \<le> 255))"

text \<open>
  \<open>archive.write(os.path.join(temp_dir, md5ext), arcname=md5ext,
  compress_type=zipfile.ZIP_STORED)\<close>. The directory holds its files under their
  names: a name that is in it is a file, and the file is stored under that name, which
  \<open>zipfile\<close> leaves as it is, with its bytes. A name of a file that is not in the
  directory is a file that does not exist, and \<open>os.stat\<close> raises FileNotFoundError.
  Anything else is a path: where it leads depends on the file system around the
  directory, and the name of the entry on how \<open>zipfile\<close> normalises it. With the empty
  string the path is the directory itself, and an entry for a directory is stored and
  nothing is raised. What happens with such a path is the parameter \<open>other_path\<close>.
\<close>

definition archive_write :: "externals \<Rightarrow> directory \<Rightarrow> pystr \<Rightarrow> py_error + zip_entry" where
  "archive_write ext dir md5ext =
     (case dir md5ext of
        Some b \<Rightarrow> Inr \<lparr>arcname = md5ext, data = b, compress_type = ZIP_STORED\<rparr>
      | None \<Rightarrow> if file_name md5ext then Inl FileNotFoundError else other_path ext md5ext)"

text \<open>
  The loop of \<open>assemble_sprite\<close>, with the set \<open>written_files\<close> and the archive written
  so far. A value of \<open>md5ext\<close> that is no string is either unhashable or no path: both
  are a TypeError. When \<open>archive.write\<close> raises, nothing of that costume has gone into the
  archive.
\<close>

fun write_costumes ::
  "externals \<Rightarrow> directory \<Rightarrow> json list \<Rightarrow> pystr list \<Rightarrow> zip_entry list \<Rightarrow>
     py_error option \<times> zip_entry list"
  where
  "write_costumes ext dir [] written_files archive = (None, archive)"
| "write_costumes ext dir (costume # rest) written_files archive =
     (case getitem costume (str ''md5ext'') of
        Inl e \<Rightarrow> (Some e, archive)
      | Inr (JStr md5ext) \<Rightarrow>
          (if md5ext \<notin> set written_files
           then (case archive_write ext dir md5ext of
                   Inl e \<Rightarrow> (Some e, archive)
                 | Inr entry \<Rightarrow>
                     write_costumes ext dir rest (md5ext # written_files) (archive @ [entry]))
           else write_costumes ext dir rest written_files archive)
      | Inr _ \<Rightarrow> (Some TypeError, archive))"

text \<open>
  \<open>assemble_sprite\<close> returns the error it raises, if any, and the archive that is at the
  output path afterwards. Opening the archive for writing creates the file at once, or
  empties the one that was there, and the \<open>with\<close> statement closes it on every way out:
  after an error the file holds the entries written until then.
\<close>

definition assemble_sprite ::
  "externals \<Rightarrow> directory \<Rightarrow> json \<Rightarrow> py_error option \<times> zip_entry list" where
  "assemble_sprite ext dir sprite =
     (case getitem sprite (str ''costumes'') of
        Inl e \<Rightarrow> (Some e, [])
      | Inr costumes \<Rightarrow>
          (case iterate costumes of
             Inl e \<Rightarrow> (Some e, [])
           | Inr cs \<Rightarrow>
               (case write_costumes ext dir cs [] [] of
                  (Some e, archive) \<Rightarrow> (Some e, archive)
                | (None, archive) \<Rightarrow>
                    (None, archive @ [\<lparr>arcname = str ''sprite.json'',
                                       data = json_dumps ext sprite,
                                       compress_type = ZIP_STORED\<rparr>]))))"

section \<open>Vocabulary of the statements\<close>

text \<open>
  A string is lowercase when \<open>str.lower()\<close> changes none of its characters: none is the
  capital sigma and each is its own lowercase mapping.
\<close>

definition lowercase :: "unicode_data \<Rightarrow> pystr \<Rightarrow> bool" where
  "lowercase db s = list_all (\<lambda>x. x \<noteq> 931 \<and> lower_full db x = [x]) s"

text \<open>The fields of a dictionary whose keys are not among \<open>ks\<close>, in their order.\<close>

definition fields_except :: "pystr list \<Rightarrow> (pystr \<times> json) list \<Rightarrow> (pystr \<times> json) list" where
  "fields_except ks kvs = filter (\<lambda>kv. fst kv \<notin> set ks) kvs"

text \<open>The entry \<open>assemble_sprite\<close> writes last: the manifest, serialized.\<close>

definition manifest_entry :: "externals \<Rightarrow> json \<Rightarrow> zip_entry" where
  "manifest_entry ext sprite =
     \<lparr>arcname = str ''sprite.json'', data = json_dumps ext sprite, compress_type = ZIP_STORED\<rparr>"

text \<open>
  What a step of the stream is asked to render: the font it hands to the generator, the
  name of the costume as \<open>name_for\<close> returns it (or the fixed name of the fallback),
  and the render specification. \<open>raster_made\<close> and \<open>vector_made\<close> say that a descriptor
  is the one the generator returns for such a request.
\<close>

definition raster_plan ::
  "externals \<Rightarrow> raster_font list \<Rightarrow> pystr \<Rightarrow> (pystr \<times> (py_error + pystr) \<times> pystr) list" where
  "raster_plan ext fonts chars =
     concat (map (\<lambda>font.
         (replacement_font, Inr (rid font @ str ''-replaceable''), str ''label:'' @ [65533])
       # map (\<lambda>c. (filename font, name_for (ucd ext) (rid font) [c],
                    dict_get label_specials [c] (str ''label:'' @ [c]))) chars)
       fonts)"

definition vector_plan ::
  "externals \<Rightarrow> vector_font list \<Rightarrow> pystr \<Rightarrow> (pystr \<times> (py_error + pystr) \<times> pystr) list" where
  "vector_plan ext fonts chars =
     concat (map (\<lambda>font.
         (fontname font, Inr (vid font @ str ''-replaceable''), [65533])
       # map (\<lambda>c. (fontname font, name_for (ucd ext) (vid font) [c], [c])) chars)
       fonts)"

definition raster_made :: "externals \<Rightarrow> pystr \<times> (py_error + pystr) \<times> pystr \<Rightarrow> json \<Rightarrow> bool" where
  "raster_made ext t d =
     (case t of (font, name, label) \<Rightarrow>
        (case name of
           Inl e \<Rightarrow> False
         | Inr n \<Rightarrow>
             (case convert ext (convert_argv font label) of
                None \<Rightarrow> False
              | Some png \<Rightarrow> d = raster_costume (hexdigest ext png) n)))"

definition vector_made :: "externals \<Rightarrow> pystr \<times> (py_error + pystr) \<times> pystr \<Rightarrow> json \<Rightarrow> bool" where
  "vector_made ext t d =
     (case t of (font, name, character) \<Rightarrow>
        (case name of
           Inl e \<Rightarrow> False
         | Inr n \<Rightarrow>
             (case utf8_encode (svg_letter character font) of
                None \<Rightarrow> False
              | Some svg \<Rightarrow> d = vector_costume (hexdigest ext svg) n)))"

text \<open>
  A descriptor is staged in a directory when its \<open>md5ext\<close> is its \<open>assetId\<close> followed by
  the suffix and the file of that name holds bytes whose digest is the \<open>assetId\<close>.
\<close>

definition staged :: "externals \<Rightarrow> pystr \<Rightarrow> directory \<Rightarrow> json \<Rightarrow> bool" where
  "staged ext suffix dir d =
     (case getitem d (str ''assetId'') of
        Inr (JStr h) \<Rightarrow>
          getitem d (str ''md5ext'') = Inr (JStr (h @ suffix)) \<and>
          (case dir (h @ suffix) of None \<Rightarrow> False | Some b \<Rightarrow> hexdigest ext b = h)
      | _ \<Rightarrow> False)"

text \<open>Thirty-two characters, each a digit or a letter from a to f.\<close>

definition md5_hex :: "pystr \<Rightarrow> bool" where
  "md5_hex s = (length s = 32 \<and> list_all (\<lambda>c. (48 \<le> c \<and> c \<le> 57) \<or> (97 \<le> c \<and> c \<le> 102)) s)"

text \<open>The field \<open>name\<close> that a result of \<open>name_for\<close> becomes in a descriptor.\<close>

definition name_field :: "py_error + pystr \<Rightarrow> py_error + json" where
  "name_field r = (case r of Inl e \<Rightarrow> Inl e | Inr n \<Rightarrow> Inr (JStr n))"

section \<open>An instance of the outside, for examples\<close>

text \<open>
  Stand-ins that compute: \<open>convert\<close> always succeeds and writes the code points of its
  label, taken as bytes; the digest is thirty-two characters that are zeros up to the
  last one, which counts the bytes modulo ten; the parser reads every input that is not
  empty as one fixed manifest; the printer writes one byte, the number of fields; the
  empty path is the directory and gives an entry for a directory, any other path is
  refused.
\<close>

definition toy_manifest :: json where
  "toy_manifest =
     JObj [(str ''name'', JStr (str ''Printer'')),
           (str ''costumes'', JArr [JObj [(str ''name'', JStr (str ''old''))]]),
           (str ''sounds'', JArr [JObj [(str ''name'', JStr (str ''pop''))]]),
           (str ''current_costume'', JInt 3),
           (str ''blocks'', JObj [])]"

definition toy_digest :: "nat \<Rightarrow> pystr" where
  "toy_digest k = str ''0000000000000000000000000000000'' @ [48 + k]"

definition toy_ext :: externals where
  "toy_ext =
     \<lparr>ucd = ucd_excerpt,
      convert = (\<lambda>argv. Some (map of_nat (argv ! 9))),
      hexdigest = (\<lambda>b. toy_digest (length b mod 10)),
      json_loads = (\<lambda>b. if b = [] then None else Some toy_manifest),
      json_dumps = (\<lambda>j. case j of JObj kvs \<Rightarrow> [of_nat (length kvs)] | _ \<Rightarrow> []),
      other_path =
        (\<lambda>m. if m = [] then Inr \<lparr>arcname = str ''./'', data = [], compress_type = ZIP_STORED\<rparr>
             else Inl OSError)\<rparr>"

text \<open>Small inputs: a directory with one staged file, descriptors, a sprite, an archive.\<close>

definition ex_dir :: directory where
  "ex_dir = [str ''7.png'' \<mapsto> [1]]"

definition ex_a :: json where
  "ex_a = JObj [(str ''name'', JStr (str ''sans-a'')), (str ''md5ext'', JStr (str ''7.png''))]"

definition ex_b :: json where
  "ex_b = JObj [(str ''name'', JStr (str ''mono-a'')), (str ''md5ext'', JStr (str ''7.png''))]"

definition ex_c :: json where
  "ex_c = JObj [(str ''name'', JStr (str ''mono-b'')), (str ''md5ext'', JStr (str ''8.png''))]"

definition ex_sprite :: "json list \<Rightarrow> json" where
  "ex_sprite cs = JObj [(str ''name'', JStr (str ''Printer'')), (str ''costumes'', JArr cs)]"

definition toy_archive :: "zip_entry list" where
  "toy_archive =
     [\<lparr>arcname = str ''sprite.json'', data = [1], compress_type = ZIP_DEFLATED\<rparr>,
      \<lparr>arcname = str ''old.png'', data = [2], compress_type = ZIP_STORED\<rparr>]"

definition ex_rfont :: raster_font where
  "ex_rfont = \<lparr>rid = str ''sans'', filename = str ''S.ttf''\<rparr>"

definition ex_vfont :: vector_font where
  "ex_vfont = \<lparr>vid = str ''serif'', fontname = str ''Serif''\<rparr>"

section \<open>Properties of the identifier deriver\<close>

lemma str_in_single: "str_in [c] s \<longleftrightarrow> c \<in> set s"
  by (induction s) auto

lemma lowers_digits_iff:
  "c \<in> set lowers_digits \<longleftrightarrow> (97 \<le> c \<and> c \<le> 122) \<or> (48 \<le> c \<and> c \<le> 57)"
  unfolding lowers_digits_def str_def by (simp; arith)

lemma uppers_iff: "c \<in> set uppers \<longleftrightarrow> 65 \<le> c \<and> c \<le> 90"
  unfolding uppers_def str_def by (simp; arith)

text \<open>
  \<open>str.lower()\<close> passes over characters it leaves alone, and on an ASCII string it is the
  ASCII mapping, whatever came before.
\<close>

lemma lower_from_lowercase:
  "lowercase db a \<Longrightarrow> lower_from db before (a @ s) = a @ lower_from db (rev a @ before) s"
  by (induction a arbitrary: before) (auto simp: lowercase_def)

lemma lower_from_ascii:
  "list_all (\<lambda>c. c < 128) s \<Longrightarrow> lower_from db before s = map lower_cp s"
  by (induction s arbitrary: before) (auto simp: lower_full_def)

lemma lower_lowercase: "lowercase db s \<Longrightarrow> lower db s = s"
  using lower_from_lowercase [of db s "[]" "[]"] by (simp add: lower_def)

lemma lowercase_ascii:
  "list_all (\<lambda>c. c < 128 \<and> \<not> (65 \<le> c \<and> c \<le> 90)) s \<Longrightarrow> lowercase db s"
  by (induction s) (auto simp: lowercase_def lower_full_def lower_cp_def)

lemma lowercase_sans: "lowercase db (str ''sans'')"
  by (rule lowercase_ascii) (simp add: str_def)

lemma name_for_lower_digit:
  assumes "(97 \<le> c \<and> c \<le> 122) \<or> (48 \<le> c \<and> c \<le> 57)"
  shows "name_for db font_id [c] = Inr (lower db (font_id @ str ''-'' @ [c]))"
proof -
  have "str_in [c] lowers_digits"
    using assms by (simp add: str_in_single lowers_digits_iff)
  then show ?thesis
    by (simp add: name_for_def)
qed

lemma name_for_lower_digit_lowercase:
  assumes "(97 \<le> c \<and> c \<le> 122) \<or> (48 \<le> c \<and> c \<le> 57)" and "lowercase db font_id"
  shows "name_for db font_id [c] = Inr (font_id @ str ''-'' @ [c])"
proof -
  have "list_all (\<lambda>c. c < 128) (str ''-'' @ [c])"
    using assms(1) by (auto simp: str_def)
  then have "lower_from db (rev font_id) (str ''-'' @ [c]) = map lower_cp (str ''-'' @ [c])"
    by (rule lower_from_ascii)
  moreover have "map lower_cp (str ''-'' @ [c]) = str ''-'' @ [c]"
    using assms(1) by (auto simp: str_def lower_cp_def)
  ultimately have "lower db (font_id @ str ''-'' @ [c]) = font_id @ str ''-'' @ [c]"
    using lower_from_lowercase [OF assms(2), of "[]" "str ''-'' @ [c]"]
    by (simp add: lower_def)
  with name_for_lower_digit [OF assms(1)] show ?thesis by simp
qed

lemma name_for_upper:
  assumes "65 \<le> c \<and> c \<le> 90"
  shows "name_for db font_id [c] = Inr (font_id @ str ''-upper-'' @ [c])"
proof -
  have "\<not> str_in [c] lowers_digits"
    using assms by (simp add: str_in_single lowers_digits_iff)
  moreover have "str_in [c] uppers"
    using assms by (simp add: str_in_single uppers_iff)
  ultimately show ?thesis
    by (simp add: name_for_def)
qed

lemma name_for_special:
  assumes "\<not> ((97 \<le> c \<and> c \<le> 122) \<or> (48 \<le> c \<and> c \<le> 57))" and "\<not> (65 \<le> c \<and> c \<le> 90)"
  shows "name_for db font_id [c] =
           (case uname db c of
              None \<Rightarrow> Inl ValueError
            | Some n \<Rightarrow> Inr (lower db (font_id @ str ''-special-''
                               @ replace 32 45 (replace 95 45 (lower db n)))))"
proof -
  have "\<not> str_in [c] lowers_digits"
    using assms(1) by (simp add: str_in_single lowers_digits_iff)
  moreover have "\<not> str_in [c] uppers"
    using assms(2) by (simp add: str_in_single uppers_iff)
  ultimately show ?thesis
    by (simp add: name_for_def unicodedata_name_def split: option.split)
qed

lemmas lower_eval = lower_def lower_full_def lower_cp_def

lemmas name_for_eval = name_for_def lowers_digits_def uppers_def unicodedata_name_def
  ucd_excerpt_def ucd_names_def ucd_lowercase_def lower_eval replace_def

text \<open>With the names of the excerpt, every character of the configured set has a name.\<close>

lemma configured_characters_named:
  "\<forall>c\<in>set characters. \<exists>n. name_for ucd_excerpt font_id [c] = Inr n"
  by (simp add: characters_def name_for_def lowers_digits_def uppers_def unicodedata_name_def
      ucd_excerpt_def ucd_names_def str_def)

lemma ucd_excerpt_solidus: "uname ucd_excerpt 47 = Some (str ''SOLIDUS'')"
  by (simp add: ucd_excerpt_def ucd_names_def)

lemma ucd_excerpt_nul: "uname ucd_excerpt 0 = None"
  by (simp add: ucd_excerpt_def ucd_names_def)

text \<open>
  A font identifier that is not lowercase is lowercased with the rest of the name, for
  a lowercase letter or a digit as for a special character, and is kept for an
  uppercase letter: \<open>Sans\<close> and U+0053 U+00C4 U+004E U+0053.
\<close>

lemma name_for_lowercases_font_id:
  "name_for ucd_excerpt (str ''Sans'') (str ''a'') = Inr (str ''sans-a'')"
  "name_for ucd_excerpt [83, 196, 78, 83] (str ''a'') = Inr ([115, 228, 110, 115] @ str ''-a'')"
  "name_for ucd_excerpt (str ''Sans'') (str ''A'') = Inr (str ''Sans-upper-A'')"
  "name_for ucd_excerpt (str ''Sans'') (str ''/'') = Inr (str ''sans-special-solidus'')"
  by (simp_all add: name_for_eval str_def)

text \<open>
  C2: for a font identifier that is lowercase, as the identifiers of the configured
  fonts are, \<open>name_for\<close> returns \<open>{font_id}-{character}\<close> for an ASCII lowercase letter
  or digit. For an ASCII uppercase letter it returns \<open>{font_id}-upper-{character}\<close> with
  the letter as it is. For any other character, with its Unicode name, it returns
  \<open>{font_id}-special-{name}\<close> with the name lowercased, its underscores and spaces
  replaced by hyphens, and the whole result lowercased. With the font \<open>sans\<close>, \<open>a\<close> gives
  \<open>sans-a\<close>, \<open>A\<close> gives \<open>sans-upper-A\<close>, and \<open>/\<close>, named SOLIDUS, gives
  \<open>sans-special-solidus\<close>.
\<close>

theorem name_for_rules:
  "(lowercase db font_id \<and> ((97 \<le> c \<and> c \<le> 122) \<or> (48 \<le> c \<and> c \<le> 57)) \<longrightarrow>
      name_for db font_id [c] = Inr (font_id @ str ''-'' @ [c])) \<and>
   (65 \<le> c \<and> c \<le> 90 \<longrightarrow>
      name_for db font_id [c] = Inr (font_id @ str ''-upper-'' @ [c])) \<and>
   (\<not> ((97 \<le> c \<and> c \<le> 122) \<or> (48 \<le> c \<and> c \<le> 57)) \<and> \<not> (65 \<le> c \<and> c \<le> 90) \<and>
    uname db c = Some n \<longrightarrow>
      name_for db font_id [c] =
        Inr (lower db (font_id @ str ''-special-''
               @ replace 32 45 (replace 95 45 (lower db n))))) \<and>
   name_for db (str ''sans'') (str ''a'') = Inr (str ''sans-a'') \<and>
   name_for db (str ''sans'') (str ''A'') = Inr (str ''sans-upper-A'') \<and>
   (uname db 47 = Some (str ''SOLIDUS'') \<longrightarrow>
      name_for db (str ''sans'') (str ''/'') = Inr (str ''sans-special-solidus''))"
proof -
  have a: "name_for db (str ''sans'') (str ''a'') = Inr (str ''sans-a'')"
    using name_for_lower_digit_lowercase [of 97 db "str ''sans''"] lowercase_sans
    by (simp add: str_def)
  have b: "name_for db (str ''sans'') (str ''A'') = Inr (str ''sans-upper-A'')"
    using name_for_upper [of 65 db "str ''sans''"] by (simp add: str_def)
  have c: "name_for db (str ''sans'') (str ''/'') = Inr (str ''sans-special-solidus'')"
    if "uname db 47 = Some (str ''SOLIDUS'')"
    using name_for_special [of 47 db "str ''sans''"] that
    by (simp add: str_def lower_eval replace_def)
  show ?thesis
    using a b c
    by (simp add: name_for_lower_digit_lowercase name_for_upper name_for_special)
qed

theorem name_for_rules_witness:
  "lowercase ucd_excerpt (str ''sans-serif'') \<and>
   uname ucd_excerpt 47 = Some (str ''SOLIDUS'') \<and>
   name_for ucd_excerpt (str ''sans-serif'') (str ''a'') = Inr (str ''sans-serif-a'') \<and>
   name_for ucd_excerpt (str ''sans-serif'') (str ''7'') = Inr (str ''sans-serif-7'') \<and>
   name_for ucd_excerpt (str ''sans-serif'') (str ''A'') = Inr (str ''sans-serif-upper-A'') \<and>
   name_for ucd_excerpt (str ''sans-serif'') (str ''/'') =
     Inr (str ''sans-serif-special-solidus'') \<and>
   name_for ucd_excerpt (str ''sans'') (str ''/'') = Inr (str ''sans-special-solidus'')"
proof -
  have h: "lowercase ucd_excerpt (str ''sans-serif'')"
    by (rule lowercase_ascii) (simp add: str_def)
  show ?thesis
    using h ucd_excerpt_solidus
      name_for_rules [of ucd_excerpt "str ''sans-serif''" 97 "str ''SOLIDUS''"]
      name_for_rules [of ucd_excerpt "str ''sans-serif''" 55 "str ''SOLIDUS''"]
      name_for_rules [of ucd_excerpt "str ''sans-serif''" 65 "str ''SOLIDUS''"]
      name_for_rules [of ucd_excerpt "str ''sans-serif''" 47 "str ''SOLIDUS''"]
    by (simp add: str_def lower_eval replace_def)
qed

text \<open>
  C10: \<open>name_for\<close> raises ValueError, and returns no name, for every character that is
  no ASCII letter or digit and has no Unicode name; U+0000 is one.
\<close>

theorem name_for_unnamed:
  assumes "\<not> ((97 \<le> c \<and> c \<le> 122) \<or> (48 \<le> c \<and> c \<le> 57) \<or> (65 \<le> c \<and> c \<le> 90))"
    and "uname db c = None"
  shows "name_for db font_id [c] = Inl ValueError"
  using assms by (simp add: name_for_special)

theorem name_for_unnamed_witness:
  "uname ucd_excerpt 0 = None \<and> name_for ucd_excerpt (str ''sans'') [0] = Inl ValueError"
  using name_for_unnamed [of 0 ucd_excerpt "str ''sans''"] ucd_excerpt_nul by simp

section \<open>Properties of the renderers\<close>

lemma label_for:
  "dict_get label_specials [c] (str ''label:'' @ [c]) =
     (if c = 32 then str ''label:'' @ [92, 32]
      else if c = 92 then str ''label:'' @ [92, 92]
      else str ''label:'' @ [c])"
  by (simp add: dict_get_def label_specials_def)

lemma escape_for:
  "(case map_of replacements [c] of Some r \<Rightarrow> r | None \<Rightarrow> [c]) =
     (if c = 38 then str ''&amp;'' else if c = 60 then str ''&lt;''
      else if c = 62 then str ''&gt;'' else [c])"
  by (simp add: replacements_def str_def)

lemma svg_letter_shape:
  \<open>\<exists>pre post. \<forall>font c. svg_letter [c] font =
      pre @ str ''font-family="'' @ font @
      str ''" font-weight="normal" text-anchor="middle" style="mix-blend-mode: normal">'' @
      (if c = 38 then str ''&amp;'' else if c = 60 then str ''&lt;''
       else if c = 62 then str ''&gt;'' else [c]) @
      str ''</text>'' @ post\<close>
proof -
  let ?pre = \<open>
      str ''\<newline>        <svg version="1.1"'' @
      str ''\<newline>            xmlns="http://www.w3.org/2000/svg"'' @
      str ''\<newline>            xmlns:xlink="http://www.w3.org/1999/xlink" width="'' @
      decimal (nat vector_width) @ str ''" height="'' @ decimal (nat vector_height) @
      str ''" viewBox="0,0,'' @ decimal (nat vector_width) @ str '','' @
      decimal (nat vector_height) @ str ''">'' @
      str ''\<newline>            <text x="'' @ str ''20.0'' @ str ''" y="'' @ str ''37.5'' @
      str ''" font-size="40" xml:space="preserve" fill="#000000" fill-rule="nonzero"'' @
      str ''\<newline>                stroke="none" stroke-width="1" stroke-linecap="butt" stroke-linejoin="miter" stroke-miterlimit="10" stroke-dasharray="" stroke-dashoffset="0"'' @
      str ''\<newline>                ''\<close>
  let ?post = \<open>str ''\<newline>        </svg>'' @ str ''\<newline>        ''\<close>
  have \<open>svg_letter [c] font =
      ?pre @ str ''font-family="'' @ font @
      str ''" font-weight="normal" text-anchor="middle" style="mix-blend-mode: normal">'' @
      (if c = 38 then str ''&amp;'' else if c = 60 then str ''&lt;''
       else if c = 62 then str ''&gt;'' else [c]) @
      str ''</text>'' @ ?post\<close> for font c
    unfolding svg_letter_def Let_def escape_for
    by (simp add: str_def)
  then show ?thesis by blast
qed

lemma raster_generate_glyph_Inr:
  assumes "raster_generate_glyph ext font name label dir = (Inr d, dir')"
  shows "\<exists>png. convert ext (convert_argv font label) = Some png \<and>
           d = raster_costume (hexdigest ext png) name \<and>
           hexdigest ext png @ str ''.png'' \<noteq> temp_png \<and>
           dir' = dir(temp_png \<mapsto> png, hexdigest ext png @ str ''.png'' \<mapsto> png)"
  using assms
  by (auto simp: raster_generate_glyph_def md5sum_file_def shutil_copy_def Let_def
      split: option.splits sum.splits if_splits)

lemma vector_generate_glyph_Inr:
  assumes "vector_generate_glyph ext font name character dir = (Inr d, dir')"
  shows "\<exists>svg. utf8_encode (svg_letter character font) = Some svg \<and>
           d = vector_costume (hexdigest ext svg) name \<and>
           dir' = dir(temp_svg \<mapsto> svg, hexdigest ext svg @ str ''.svg'' \<mapsto> svg)"
  using assms
  by (auto simp: vector_generate_glyph_def md5sum_file_def shutil_copy_def Let_def
      split: option.splits sum.splits if_splits)

lemma pull_set:
  assumes "pull gs dir = ((ds, r), dir')"
    and "\<forall>g\<in>set gs. \<forall>dir d dir'. g dir = (Inr d, dir') \<longrightarrow> P d"
  shows "\<forall>d\<in>set ds. P d"
  using assms
proof (induction gs arbitrary: dir ds r dir')
  case Nil
  then show ?case by simp
next
  case (Cons g gs)
  show ?case
  proof (cases "g dir")
    case (Pair res dir1)
    show ?thesis
    proof (cases res)
      case (Inl e)
      with Pair Cons.prems(1) show ?thesis by simp
    next
      case (Inr x)
      obtain xs r1 dir2 where p: "pull gs dir1 = ((xs, r1), dir2)"
        by (metis prod.exhaust)
      with Pair Inr Cons.prems(1) have ds: "ds = x # xs" by simp
      have "P x" using Cons.prems(2) Pair Inr by auto
      moreover have "\<forall>d\<in>set xs. P d"
        using Cons.IH [OF p] Cons.prems(2) by simp
      ultimately show ?thesis using ds by simp
    qed
  qed
qed

lemma raster_steps:
  assumes "g \<in> set (raster_generate_glyphs ext fonts chars)" and "g dir = (Inr d, dir')"
  shows "\<exists>font name label. raster_generate_glyph ext font name label dir = (Inr d, dir')"
  using assms
  by (auto simp: raster_generate_glyphs_def split: sum.splits) blast+

lemma vector_steps:
  assumes "g \<in> set (vector_generate_glyphs ext fonts chars)" and "g dir = (Inr d, dir')"
  shows "\<exists>font name c. vector_generate_glyph ext font name c dir = (Inr d, dir')"
  using assms
  by (auto simp: vector_generate_glyphs_def split: sum.splits) blast+

lemma raster_costume_fields:
  "getitem (raster_costume h n) (str ''rotationCenterX'') = Inr (JInt 120)"
  "getitem (raster_costume h n) (str ''rotationCenterY'') = Inr (JInt 160)"
  "getitem (raster_costume h n) (str ''bitmapResolution'') = Inr (JInt 2)"
  "getitem (raster_costume h n) (str ''assetId'') = Inr (JStr h)"
  "getitem (raster_costume h n) (str ''md5ext'') = Inr (JStr (h @ str ''.png''))"
  "getitem (raster_costume h n) (str ''name'') = Inr (JStr n)"
  "getitem (raster_costume h n) (str ''dataFormat'') = Inr (JStr (str ''png''))"
  by (simp_all add: raster_costume_def str_def int_truediv_def raster_width_def raster_height_def)

lemma vector_costume_fields:
  "getitem (vector_costume h n) (str ''rotationCenterX'') = Inr (JInt 20)"
  "getitem (vector_costume h n) (str ''rotationCenterY'') = Inr (JInt 25)"
  "getitem (vector_costume h n) (str ''bitmapResolution'') = Inl KeyError"
  "getitem (vector_costume h n) (str ''assetId'') = Inr (JStr h)"
  "getitem (vector_costume h n) (str ''md5ext'') = Inr (JStr (h @ str ''.svg''))"
  "getitem (vector_costume h n) (str ''name'') = Inr (JStr n)"
  "getitem (vector_costume h n) (str ''dataFormat'') = Inr (JStr (str ''svg''))"
  by (simp_all add: vector_costume_def str_def int_truediv_def vector_width_def vector_height_def)

text \<open>
  C7: in raster mode the label for a space is \<open>label:\<close>, backslash, space, the label
  for a backslash is \<open>label:\<close> and two backslashes, and the label for any other character
  is \<open>label:\<close> and the character; that label is what the step of the stream for the
  character hands to the renderer. In vector mode the text node of the document holds
  \<open>&amp;\<close>, \<open>&lt;\<close> or \<open>&gt;\<close> for the three characters and the character itself for
  any other; the step of the stream hands the character itself to the generator.
\<close>

theorem render_spec_escaping:
  \<open>dict_get label_specials [c] (str ''label:'' @ [c]) =
     (if c = 32 then str ''label:'' @ [92, 32]
      else if c = 92 then str ''label:'' @ [92, 92]
      else str ''label:'' @ [c]) \<and>
   (name_for (ucd ext) (rid rfont) [c] = Inr n \<longrightarrow>
      raster_generate_glyphs ext [rfont] [c] =
        [raster_generate_glyph ext replacement_font (rid rfont @ str ''-replaceable'')
           (str ''label:'' @ [65533]),
         raster_generate_glyph ext (filename rfont) n
           (if c = 32 then str ''label:'' @ [92, 32]
            else if c = 92 then str ''label:'' @ [92, 92]
            else str ''label:'' @ [c])]) \<and>
   (\<exists>pre post. \<forall>font c. svg_letter [c] font =
      pre @ str ''font-family="'' @ font @
      str ''" font-weight="normal" text-anchor="middle" style="mix-blend-mode: normal">'' @
      (if c = 38 then str ''&amp;'' else if c = 60 then str ''&lt;''
       else if c = 62 then str ''&gt;'' else [c]) @
      str ''</text>'' @ post) \<and>
   (name_for (ucd ext) (vid vfont) [c] = Inr m \<longrightarrow>
      vector_generate_glyphs ext [vfont] [c] =
        [vector_generate_glyph ext (fontname vfont) (vid vfont @ str ''-replaceable'') [65533],
         vector_generate_glyph ext (fontname vfont) m [c]])\<close>
proof -
  have r: "raster_generate_glyphs ext [rfont] [c] =
        [raster_generate_glyph ext replacement_font (rid rfont @ str ''-replaceable'')
           (str ''label:'' @ [65533]),
         raster_generate_glyph ext (filename rfont) n
           (if c = 32 then str ''label:'' @ [92, 32]
            else if c = 92 then str ''label:'' @ [92, 92]
            else str ''label:'' @ [c])]"
    if "name_for (ucd ext) (rid rfont) [c] = Inr n"
    using that
    by (simp add: raster_generate_glyphs_def label_for replacement_character_def)
  have v: "vector_generate_glyphs ext [vfont] [c] =
        [vector_generate_glyph ext (fontname vfont) (vid vfont @ str ''-replaceable'') [65533],
         vector_generate_glyph ext (fontname vfont) m [c]]"
    if "name_for (ucd ext) (vid vfont) [c] = Inr m"
    using that by (simp add: vector_generate_glyphs_def)
  show ?thesis
    using r v svg_letter_shape label_for [of c] by blast
qed

lemma toy_name_backslash:
  "name_for (ucd toy_ext) (str ''sans'') [92] = Inr (str ''sans-special-reverse-solidus'')"
  by (simp add: toy_ext_def name_for_eval str_def)

theorem render_spec_escaping_witness:
  \<open>name_for (ucd toy_ext) (str ''sans'') [92] = Inr (str ''sans-special-reverse-solidus'') \<and>
   dict_get label_specials [92] (str ''label:'' @ [92]) = str ''label:'' @ [92, 92] \<and>
   raster_generate_glyphs toy_ext [\<lparr>rid = str ''sans'', filename = str ''S.ttf''\<rparr>] [92] =
     [raster_generate_glyph toy_ext replacement_font (str ''sans-replaceable'')
        (str ''label:'' @ [65533]),
      raster_generate_glyph toy_ext (str ''S.ttf'') (str ''sans-special-reverse-solidus'')
        (str ''label:'' @ [92, 92])] \<and>
   vector_generate_glyphs toy_ext [\<lparr>vid = str ''sans'', fontname = str ''Sans Serif''\<rparr>] [92] =
     [vector_generate_glyph toy_ext (str ''Sans Serif'') (str ''sans-replaceable'') [65533],
      vector_generate_glyph toy_ext (str ''Sans Serif'') (str ''sans-special-reverse-solidus'')
        [92]]\<close>
  using toy_name_backslash
    render_spec_escaping [of 92 toy_ext "\<lparr>rid = str ''sans'', filename = str ''S.ttf''\<rparr>"
      "str ''sans-special-reverse-solidus''"
      "\<lparr>vid = str ''sans'', fontname = str ''Sans Serif''\<rparr>"
      "str ''sans-special-reverse-solidus''"]
  by (simp add: str_def)

section \<open>Properties of the archive\<close>

lemma map_of_dict_set:
  "map_of (dict_set k v kvs) k' = (if k' = k then Some v else map_of kvs k')"
  by (induction kvs) auto

lemma fields_except_dict_set:
  "k \<in> set ks \<Longrightarrow> fields_except ks (dict_set k v kvs) = fields_except ks kvs"
  by (induction kvs) (auto simp: fields_except_def)

lemma write_costumes_prefix:
  assumes "map (\<lambda>d. getitem d (str ''md5ext'')) pre = map (\<lambda>m. Inr (JStr m)) ms"
    and "set ms \<subseteq> dom dir"
  shows "\<exists>bins W'. write_costumes ext dir (pre @ rest) W A = write_costumes ext dir rest W' (A @ bins) \<and>
           set W' = set W \<union> set ms \<and>
           distinct (map arcname bins) \<and> set (map arcname bins) = set ms - set W \<and>
           (\<forall>e\<in>set bins. compress_type e = ZIP_STORED \<and> dir (arcname e) = Some (data e))"
  using assms
proof (induction pre arbitrary: ms W A)
  case Nil
  then show ?case by (intro exI [of _ "[]"] exI [of _ W]) simp
next
  case (Cons d pre)
  then obtain m ms' where ms: "ms = m # ms'"
    and d: "getitem d (str ''md5ext'') = Inr (JStr m)"
    and rest: "map (\<lambda>d. getitem d (str ''md5ext'')) pre = map (\<lambda>m. Inr (JStr m)) ms'"
    by (cases ms) auto
  from Cons.prems(2) ms obtain b where b: "dir m = Some b" and sub: "set ms' \<subseteq> dom dir"
    by auto
  show ?case
  proof (cases "m \<in> set W")
    case True
    from Cons.IH [OF rest sub, of W A]
    obtain bins W' where
      "write_costumes ext dir (pre @ rest) W A = write_costumes ext dir rest W' (A @ bins)"
      "set W' = set W \<union> set ms'" "distinct (map arcname bins)"
      "set (map arcname bins) = set ms' - set W"
      "\<forall>e\<in>set bins. compress_type e = ZIP_STORED \<and> dir (arcname e) = Some (data e)"
      by blast
    with True d ms show ?thesis
      by (intro exI [of _ bins] exI [of _ W']) auto
  next
    case False
    let ?e = "\<lparr>arcname = m, data = b, compress_type = ZIP_STORED\<rparr>"
    from Cons.IH [OF rest sub, of "m # W" "A @ [?e]"]
    obtain bins W' where
      "write_costumes ext dir (pre @ rest) (m # W) (A @ [?e]) =
         write_costumes ext dir rest W' ((A @ [?e]) @ bins)"
      "set W' = set (m # W) \<union> set ms'" "distinct (map arcname bins)"
      "set (map arcname bins) = set ms' - set (m # W)"
      "\<forall>e\<in>set bins. compress_type e = ZIP_STORED \<and> dir (arcname e) = Some (data e)"
      by blast
    with False d ms b show ?thesis
      by (intro exI [of _ "?e # bins"] exI [of _ W']) (auto simp: archive_write_def)
  qed
qed

lemma append_costume_ok:
  assumes "getitem sprite (str ''costumes'') = Inr (JArr xs)"
  shows "\<exists>s. append_costume sprite c = Inr s \<and>
           getitem s (str ''costumes'') = Inr (JArr (xs @ [c]))"
proof (cases sprite)
  case (JObj kvs)
  with assms show ?thesis
    by (simp add: append_costume_def map_of_dict_set)
qed (use assms in simp_all)

lemma append_costumes_ok:
  assumes "getitem sprite (str ''costumes'') = Inr (JArr xs)"
  shows "\<exists>s. append_costumes sprite cs = Inr s \<and>
           getitem s (str ''costumes'') = Inr (JArr (xs @ cs))"
  using assms
proof (induction cs arbitrary: sprite xs)
  case Nil
  then show ?case by simp
next
  case (Cons c cs)
  from append_costume_ok [OF Cons.prems, of c]
  obtain s1 where s1: "append_costume sprite c = Inr s1"
    "getitem s1 (str ''costumes'') = Inr (JArr (xs @ [c]))"
    by blast
  from Cons.IH [OF s1(2)] s1(1) show ?case by simp
qed

lemma count_distinct:
  "distinct (map f xs) \<Longrightarrow> y \<in> f ` set xs \<Longrightarrow> length (filter (\<lambda>e. f e = y) xs) = 1"
proof (induction xs)
  case Nil
  then show ?case by simp
next
  case (Cons x xs)
  show ?case
  proof (cases "f x = y")
    case True
    from Cons.prems(1) have "f x \<notin> f ` set xs" by simp
    with True have "\<forall>e\<in>set xs. f e \<noteq> y" by blast
    then have "filter (\<lambda>e. f e = y) xs = []"
      by (simp add: filter_empty_conv)
    with True show ?thesis by simp
  next
    case False
    with Cons show ?thesis by auto
  qed
qed

lemma distinct_single: "distinct xs \<Longrightarrow> set xs = {a} \<Longrightarrow> xs = [a]"
proof (cases xs)
  case Nil
  assume "set xs = {a}"
  with Nil show ?thesis by simp
next
  case (Cons x ys)
  assume d: "distinct xs" and s: "set xs = {a}"
  from s Cons have x: "x = a" by auto
  from s Cons have ys: "set ys \<subseteq> {a}" by auto
  from d Cons x have "a \<notin> set ys" by simp
  with ys have "ys = []" by (cases ys) auto
  with x Cons show ?thesis by simp
qed

lemma assemble_sprite_prefix:
  assumes "getitem sprite (str ''costumes'') = Inr (JArr (pre @ rest))"
    and "map (\<lambda>d. getitem d (str ''md5ext'')) pre = map (\<lambda>m. Inr (JStr m)) ms"
    and "set ms \<subseteq> dom dir"
  shows "\<exists>bins W. write_costumes ext dir (pre @ rest) [] [] = write_costumes ext dir rest W bins \<and>
           set W = set ms \<and> distinct (map arcname bins) \<and> set (map arcname bins) = set ms \<and>
           (\<forall>e\<in>set bins. compress_type e = ZIP_STORED \<and> dir (arcname e) = Some (data e))"
  using write_costumes_prefix [OF assms(2,3), of ext rest "[]" "[]"] by simp

text \<open>
  C1: the descriptors are appended to the manifest in the order received, duplicates
  included, and when each has a staged file the archive written is one stored entry for
  each distinct \<open>md5ext\<close>, holding the staged bytes, followed by the serialized manifest.
\<close>

theorem assemble_dedup:
  assumes "getitem sprite0 (str ''costumes'') = Inr (JArr [])"
    and "map (\<lambda>d. getitem d (str ''md5ext'')) ds = map (\<lambda>m. Inr (JStr m)) ms"
    and "set ms \<subseteq> dom dir"
  shows "\<exists>sprite bins.
           append_costumes sprite0 ds = Inr sprite \<and>
           getitem sprite (str ''costumes'') = Inr (JArr ds) \<and>
           assemble_sprite ext dir sprite = (None, bins @ [manifest_entry ext sprite]) \<and>
           distinct (map arcname bins) \<and> set (map arcname bins) = set ms \<and>
           (\<forall>m\<in>set ms. length (filter (\<lambda>e. arcname e = m) bins) = 1) \<and>
           (\<forall>e\<in>set bins. compress_type e = ZIP_STORED \<and> dir (arcname e) = Some (data e))"
proof -
  from append_costumes_ok [OF assms(1), of ds]
  obtain sprite where s: "append_costumes sprite0 ds = Inr sprite"
    "getitem sprite (str ''costumes'') = Inr (JArr ds)"
    by auto
  from s(2) have s': "getitem sprite (str ''costumes'') = Inr (JArr (ds @ []))" by simp
  from assemble_sprite_prefix [OF s' assms(2,3), of ext]
  obtain bins W where w: "write_costumes ext dir ds [] [] = (None, bins)"
    and b: "distinct (map arcname bins)" "set (map arcname bins) = set ms"
    "\<forall>e\<in>set bins. compress_type e = ZIP_STORED \<and> dir (arcname e) = Some (data e)"
    by auto
  have a: "assemble_sprite ext dir sprite = (None, bins @ [manifest_entry ext sprite])"
    using s(2) w by (simp add: assemble_sprite_def manifest_entry_def)
  have c: "\<forall>m\<in>set ms. length (filter (\<lambda>e. arcname e = m) bins) = 1"
    using count_distinct [OF b(1)] b(2) by auto
  show ?thesis using s a b c by blast
qed

theorem assemble_dedup_witness:
  "getitem (JObj [(str ''costumes'', JArr [])]) (str ''costumes'') = Inr (JArr []) \<and>
   map (\<lambda>d. getitem d (str ''md5ext'')) [ex_a, ex_b] =
     map (\<lambda>m. Inr (JStr m)) [str ''7.png'', str ''7.png''] \<and>
   set [str ''7.png'', str ''7.png''] \<subseteq> dom ex_dir \<and>
   (\<exists>sprite bins.
      append_costumes (JObj [(str ''costumes'', JArr [])]) [ex_a, ex_b] = Inr sprite \<and>
      getitem sprite (str ''costumes'') = Inr (JArr [ex_a, ex_b]) \<and>
      assemble_sprite toy_ext ex_dir sprite =
        (None, bins @ [manifest_entry toy_ext sprite]) \<and>
      map arcname bins = [str ''7.png''])"
proof -
  have h1: "getitem (JObj [(str ''costumes'', JArr [])]) (str ''costumes'') = Inr (JArr [])"
    by simp
  have h2: "map (\<lambda>d. getitem d (str ''md5ext'')) [ex_a, ex_b] =
     map (\<lambda>m. Inr (JStr m)) [str ''7.png'', str ''7.png'']"
    by (simp add: ex_a_def ex_b_def str_def)
  have h3: "set [str ''7.png'', str ''7.png''] \<subseteq> dom ex_dir"
    by (simp add: ex_dir_def)
  from assemble_dedup [OF h1 h2 h3, of toy_ext]
  obtain sprite bins where r:
    "append_costumes (JObj [(str ''costumes'', JArr [])]) [ex_a, ex_b] = Inr sprite"
    "getitem sprite (str ''costumes'') = Inr (JArr [ex_a, ex_b])"
    "assemble_sprite toy_ext ex_dir sprite =
        (None, bins @ [manifest_entry toy_ext sprite])"
    "distinct (map arcname bins)" "set (map arcname bins) = set [str ''7.png'', str ''7.png'']"
    by blast
  from r(4,5) have "map arcname bins = [str ''7.png'']"
    by (simp add: distinct_single)
  with r(1,2,3) have "\<exists>sprite bins.
      append_costumes (JObj [(str ''costumes'', JArr [])]) [ex_a, ex_b] = Inr sprite \<and>
      getitem sprite (str ''costumes'') = Inr (JArr [ex_a, ex_b]) \<and>
      assemble_sprite toy_ext ex_dir sprite =
        (None, bins @ [manifest_entry toy_ext sprite]) \<and>
      map arcname bins = [str ''7.png'']"
    by (intro exI [of _ sprite] exI [of _ bins]) simp
  with h1 h2 h3 show ?thesis by simp
qed

lemma file_name_8: "file_name (str ''8.png'')"
  by (simp add: file_name_def str_def utf8_cp_def)

text \<open>
  C3, as the code has it. The second descriptor has no staged file: the error is raised
  after the archive has been opened for writing and the first binary has gone into it, and
  closing the archive leaves that file at the output path, without a manifest.
\<close>

theorem assemble_missing_leaves_file_counterexample:
  "assemble_sprite toy_ext ex_dir (ex_sprite [ex_a, ex_c]) =
     (Some FileNotFoundError,
      [\<lparr>arcname = str ''7.png'', data = [1], compress_type = ZIP_STORED\<rparr>])"
proof -
  have "archive_write toy_ext ex_dir (str ''8.png'') = Inl FileNotFoundError"
    using file_name_8 by (simp add: archive_write_def ex_dir_def str_def)
  moreover have "archive_write toy_ext ex_dir (str ''7.png'') =
      Inr \<lparr>arcname = str ''7.png'', data = [1], compress_type = ZIP_STORED\<rparr>"
    by (simp add: archive_write_def ex_dir_def)
  ultimately show ?thesis
    by (simp add: assemble_sprite_def ex_sprite_def ex_a_def ex_c_def str_def)
qed

text \<open>
  A path that is no name of a file is another matter. The empty string names the
  directory itself: an entry for a directory is stored, nothing is raised and the
  manifest is written.
\<close>

lemma assemble_directory_path:
  "assemble_sprite toy_ext ex_dir (ex_sprite [JObj [(str ''md5ext'', JStr [])]]) =
     (None,
      [\<lparr>arcname = str ''./'', data = [], compress_type = ZIP_STORED\<rparr>,
       manifest_entry toy_ext (ex_sprite [JObj [(str ''md5ext'', JStr [])]])])"
  by (simp add: assemble_sprite_def ex_sprite_def archive_write_def file_name_def ex_dir_def
      toy_ext_def manifest_entry_def str_def)

text \<open>
  C3 (amended): when the first descriptor is reached whose \<open>md5ext\<close> is the name of a
  file that is not staged, the assembly fails with FileNotFoundError; the archive at the
  output path has been created and holds one stored entry for each distinct \<open>md5ext\<close> of
  the descriptors before that one, and nothing else: no manifest has been written.
\<close>

theorem assemble_missing_asset:
  assumes "getitem sprite (str ''costumes'') = Inr (JArr (pre @ d # post))"
    and "map (\<lambda>d. getitem d (str ''md5ext'')) pre = map (\<lambda>m. Inr (JStr m)) ms"
    and "set ms \<subseteq> dom dir"
    and "getitem d (str ''md5ext'') = Inr (JStr m)"
    and "file_name m"
    and "dir m = None"
  shows "\<exists>bins. assemble_sprite ext dir sprite = (Some FileNotFoundError, bins) \<and>
           distinct (map arcname bins) \<and> set (map arcname bins) = set ms \<and>
           (\<forall>e\<in>set bins. compress_type e = ZIP_STORED \<and> dir (arcname e) = Some (data e))"
proof -
  from assemble_sprite_prefix [OF assms(1,2,3), of ext]
  obtain bins W where w:
    "write_costumes ext dir (pre @ d # post) [] [] = write_costumes ext dir (d # post) W bins"
    "set W = set ms"
    and b: "distinct (map arcname bins)" "set (map arcname bins) = set ms"
    "\<forall>e\<in>set bins. compress_type e = ZIP_STORED \<and> dir (arcname e) = Some (data e)"
    by blast
  from assms(3,6) w(2) have "m \<notin> set W" by auto
  moreover have "archive_write ext dir m = Inl FileNotFoundError"
    using assms(5,6) by (simp add: archive_write_def)
  ultimately have "write_costumes ext dir (d # post) W bins = (Some FileNotFoundError, bins)"
    using assms(4) by simp
  with w(1) assms(1) have "assemble_sprite ext dir sprite = (Some FileNotFoundError, bins)"
    by (simp add: assemble_sprite_def)
  with b show ?thesis by blast
qed

theorem assemble_missing_asset_witness:
  "getitem (ex_sprite [ex_a, ex_b, ex_c, ex_a]) (str ''costumes'') =
     Inr (JArr ([ex_a, ex_b] @ ex_c # [ex_a])) \<and>
   map (\<lambda>d. getitem d (str ''md5ext'')) [ex_a, ex_b] =
     map (\<lambda>m. Inr (JStr m)) [str ''7.png'', str ''7.png''] \<and>
   set [str ''7.png'', str ''7.png''] \<subseteq> dom ex_dir \<and>
   getitem ex_c (str ''md5ext'') = Inr (JStr (str ''8.png'')) \<and>
   file_name (str ''8.png'') \<and>
   ex_dir (str ''8.png'') = None \<and>
   (\<exists>bins. assemble_sprite toy_ext ex_dir (ex_sprite [ex_a, ex_b, ex_c, ex_a]) =
             (Some FileNotFoundError, bins) \<and>
           map arcname bins = [str ''7.png''])"
proof -
  have h1: "getitem (ex_sprite [ex_a, ex_b, ex_c, ex_a]) (str ''costumes'') =
     Inr (JArr ([ex_a, ex_b] @ ex_c # [ex_a]))"
    by (simp add: ex_sprite_def str_def)
  have h2: "map (\<lambda>d. getitem d (str ''md5ext'')) [ex_a, ex_b] =
     map (\<lambda>m. Inr (JStr m)) [str ''7.png'', str ''7.png'']"
    by (simp add: ex_a_def ex_b_def str_def)
  have h3: "set [str ''7.png'', str ''7.png''] \<subseteq> dom ex_dir"
    by (simp add: ex_dir_def)
  have h4: "getitem ex_c (str ''md5ext'') = Inr (JStr (str ''8.png''))"
    by (simp add: ex_c_def str_def)
  have h5: "ex_dir (str ''8.png'') = None"
    by (simp add: ex_dir_def str_def)
  from assemble_missing_asset [OF h1 h2 h3 h4 file_name_8 h5, of toy_ext]
  obtain bins where r:
    "assemble_sprite toy_ext ex_dir (ex_sprite [ex_a, ex_b, ex_c, ex_a]) =
             (Some FileNotFoundError, bins)"
    "distinct (map arcname bins)" "set (map arcname bins) = set [str ''7.png'', str ''7.png'']"
    by blast
  from r(2,3) have "map arcname bins = [str ''7.png'']"
    by (simp add: distinct_single)
  with r(1) have ex: "\<exists>bins. assemble_sprite toy_ext ex_dir
               (ex_sprite [ex_a, ex_b, ex_c, ex_a]) = (Some FileNotFoundError, bins) \<and>
           map arcname bins = [str ''7.png'']"
    by simp
  show ?thesis by (intro conjI h1 h2 h3 h4 file_name_8 h5 ex)
qed

text \<open>A manifest whose \<open>current_costume\<close> is 3, loaded: it is 0.\<close>

lemma toy_load:
  "load_sprite_code toy_ext (Some (Zip toy_archive)) =
     Inr (JObj [(str ''name'', JStr (str ''Printer'')),
                (str ''costumes'', JArr []),
                (str ''sounds'', JArr []),
                (str ''current_costume'', JInt 0),
                (str ''blocks'', JObj [])])"
  by (simp add: load_sprite_code_def toy_archive_def zip_read_def toy_ext_def toy_manifest_def
      str_def)

text \<open>
  C4: for an archive whose manifest parses to a dictionary, loading it and assembling
  with no descriptor writes an archive that holds the serialized manifest alone, in
  which \<open>costumes\<close> is empty, \<open>current_costume\<close> is 0 and \<open>sounds\<close> is empty. The
  behaviour payload is what the manifest holds beside \<open>costumes\<close>, \<open>sounds\<close> and
  \<open>current_costume\<close>: its fields are those of the original, the same values in the same
  order, so the printer writes the same bytes for it.
\<close>

theorem load_assemble_roundtrip:
  assumes "zip_read archive (str ''sprite.json'') = Inr b"
    and "json_loads ext b = Some (JObj kvs)"
  shows "\<exists>kvs'. load_sprite_code ext (Some (Zip archive)) = Inr (JObj kvs') \<and>
           getitem (JObj kvs') (str ''costumes'') = Inr (JArr []) \<and>
           getitem (JObj kvs') (str ''current_costume'') = Inr (JInt 0) \<and>
           getitem (JObj kvs') (str ''sounds'') = Inr (JArr []) \<and>
           fields_except [str ''costumes'', str ''sounds'', str ''current_costume''] kvs' =
             fields_except [str ''costumes'', str ''sounds'', str ''current_costume''] kvs \<and>
           json_dumps ext
             (JObj (fields_except [str ''costumes'', str ''sounds'', str ''current_costume''] kvs')) =
           json_dumps ext
             (JObj (fields_except [str ''costumes'', str ''sounds'', str ''current_costume''] kvs)) \<and>
           append_costumes (JObj kvs') [] = Inr (JObj kvs') \<and>
           assemble_sprite ext dir (JObj kvs') = (None, [manifest_entry ext (JObj kvs')])"
proof -
  let ?k1 = "dict_set (str ''costumes'') (JArr []) kvs"
  let ?k2 = "dict_set (str ''current_costume'') (JInt 0) ?k1"
  let ?k3 = "dict_set (str ''sounds'') (JArr []) ?k2"
  have ne: "str ''costumes'' \<noteq> str ''current_costume''" "str ''costumes'' \<noteq> str ''sounds''"
    "str ''current_costume'' \<noteq> str ''sounds''"
    by (simp_all add: str_def)
  have l: "load_sprite_code ext (Some (Zip archive)) = Inr (JObj ?k3)"
    using assms by (simp add: load_sprite_code_def)
  have c: "map_of ?k3 (str ''costumes'') = Some (JArr [])"
    using ne by (simp add: map_of_dict_set)
  have cc: "map_of ?k3 (str ''current_costume'') = Some (JInt 0)"
    using ne by (simp add: map_of_dict_set)
  have s: "map_of ?k3 (str ''sounds'') = Some (JArr [])"
    by (simp add: map_of_dict_set)
  have f: "fields_except [str ''costumes'', str ''sounds'', str ''current_costume''] ?k3 =
             fields_except [str ''costumes'', str ''sounds'', str ''current_costume''] kvs"
    by (simp add: fields_except_dict_set)
  have a: "assemble_sprite ext dir (JObj ?k3) = (None, [manifest_entry ext (JObj ?k3)])"
    using c by (simp add: assemble_sprite_def manifest_entry_def)
  show ?thesis
    using l c cc s f a by (intro exI [of _ ?k3]) simp
qed

theorem load_assemble_roundtrip_witness:
  "zip_read toy_archive (str ''sprite.json'') = Inr [1] \<and>
   json_loads toy_ext [1] = Some toy_manifest \<and>
   (\<exists>kvs'. load_sprite_code toy_ext (Some (Zip toy_archive)) = Inr (JObj kvs') \<and>
      getitem (JObj kvs') (str ''costumes'') = Inr (JArr []) \<and>
      getitem (JObj kvs') (str ''current_costume'') = Inr (JInt 0) \<and>
      fields_except [str ''costumes'', str ''sounds'', str ''current_costume''] kvs' =
        [(str ''name'', JStr (str ''Printer'')), (str ''blocks'', JObj [])] \<and>
      assemble_sprite toy_ext Map.empty (JObj kvs') = (None, [manifest_entry toy_ext (JObj kvs')]))"
proof -
  have h1: "zip_read toy_archive (str ''sprite.json'') = Inr [1]"
    by (simp add: zip_read_def toy_archive_def str_def)
  have h2: "json_loads toy_ext [1] = Some toy_manifest"
    by (simp add: toy_ext_def)
  have h2': "json_loads toy_ext [1] =
      Some (JObj [(str ''name'', JStr (str ''Printer'')),
           (str ''costumes'', JArr [JObj [(str ''name'', JStr (str ''old''))]]),
           (str ''sounds'', JArr [JObj [(str ''name'', JStr (str ''pop''))]]),
           (str ''current_costume'', JInt 3),
           (str ''blocks'', JObj [])])"
    using h2 by (simp add: toy_manifest_def)
  have f: "fields_except [str ''costumes'', str ''sounds'', str ''current_costume'']
          [(str ''name'', JStr (str ''Printer'')),
           (str ''costumes'', JArr [JObj [(str ''name'', JStr (str ''old''))]]),
           (str ''sounds'', JArr [JObj [(str ''name'', JStr (str ''pop''))]]),
           (str ''current_costume'', JInt 3),
           (str ''blocks'', JObj [])] =
        [(str ''name'', JStr (str ''Printer'')), (str ''blocks'', JObj [])]"
    by (simp add: fields_except_def str_def)
  from load_assemble_roundtrip [OF h1 h2', of Map.empty] f
  have ex: "\<exists>kvs'. load_sprite_code toy_ext (Some (Zip toy_archive)) = Inr (JObj kvs') \<and>
      getitem (JObj kvs') (str ''costumes'') = Inr (JArr []) \<and>
      getitem (JObj kvs') (str ''current_costume'') = Inr (JInt 0) \<and>
      fields_except [str ''costumes'', str ''sounds'', str ''current_costume''] kvs' =
        [(str ''name'', JStr (str ''Printer'')), (str ''blocks'', JObj [])] \<and>
      assemble_sprite toy_ext Map.empty (JObj kvs') = (None, [manifest_entry toy_ext (JObj kvs')])"
    by metis
  show ?thesis by (intro conjI h1 h2 ex)
qed

section \<open>Properties of the glyph stream\<close>

lemma pull_list_all2:
  assumes "list_all2 (\<lambda>g t. \<forall>dir d dir'. g dir = (Inr d, dir') \<longrightarrow> P t d) gs ts"
    and "pull gs dir = ((ds, r), dir')"
  shows "list_all2 P (take (length ds) ts) ds \<and> length ds \<le> length ts \<and>
         (r = None \<longrightarrow> length ds = length ts)"
  using assms
proof (induction gs ts arbitrary: dir ds r dir' rule: list_all2_induct)
  case Nil
  then show ?case by simp
next
  case (Cons g gs t ts)
  show ?case
  proof (cases "g dir")
    case (Pair res dir1)
    show ?thesis
    proof (cases res)
      case (Inl e)
      with Pair Cons.prems show ?thesis by auto
    next
      case (Inr x)
      obtain xs r1 dir2 where p: "pull gs dir1 = ((xs, r1), dir2)"
        by (metis prod.exhaust)
      with Pair Inr Cons.prems have ds: "ds = x # xs" "r = r1" by simp_all
      have "P t x" using Cons.hyps(1) Pair Inr by blast
      with Cons.IH [OF p] ds show ?thesis by simp
    qed
  qed
qed

lemma pull_succeeds:
  assumes "\<forall>g\<in>set gs. \<forall>dir. \<exists>d dir'. g dir = (Inr d, dir')"
  shows "snd (fst (pull gs dir)) = None"
  using assms
proof (induction gs arbitrary: dir)
  case Nil
  then show ?case by simp
next
  case (Cons g gs)
  then obtain d dir1 where g: "g dir = (Inr d, dir1)" by fastforce
  obtain xs r dir2 where p: "pull gs dir1 = ((xs, r), dir2)"
    by (metis prod.exhaust)
  from Cons have "snd (fst (pull gs dir1)) = None" by simp
  with p have "r = None" by simp
  with g p show ?case by simp
qed

lemma pull_invariant:
  assumes "\<forall>g\<in>set gs. \<forall>dir r dir'. g dir = (r, dir') \<longrightarrow>
             (\<forall>d. Q dir d \<longrightarrow> Q dir' d) \<and> (\<forall>d. r = Inr d \<longrightarrow> Q dir' d)"
    and "pull gs dir = ((ds, r), dir')"
  shows "(\<forall>d. Q dir d \<longrightarrow> Q dir' d) \<and> (\<forall>d\<in>set ds. Q dir' d)"
  using assms
proof (induction gs arbitrary: dir ds r dir')
  case Nil
  then show ?case by simp
next
  case (Cons g gs)
  show ?case
  proof (cases "g dir")
    case (Pair res dir1)
    from Cons.prems(1) Pair have step: "\<forall>d. Q dir d \<longrightarrow> Q dir1 d"
      "\<forall>d. res = Inr d \<longrightarrow> Q dir1 d"
      by auto
    show ?thesis
    proof (cases res)
      case (Inl e)
      with Pair Cons.prems(2) step show ?thesis by simp
    next
      case (Inr x)
      obtain xs r1 dir2 where p: "pull gs dir1 = ((xs, r1), dir2)"
        by (metis prod.exhaust)
      with Pair Inr Cons.prems(2) have ds: "ds = x # xs" "dir' = dir2" by simp_all
      from Cons.prems(1) have "\<forall>g\<in>set gs. \<forall>dir r dir'. g dir = (r, dir') \<longrightarrow>
             (\<forall>d. Q dir d \<longrightarrow> Q dir' d) \<and> (\<forall>d. r = Inr d \<longrightarrow> Q dir' d)"
        by simp
      from Cons.IH [OF this p]
      have ih: "\<forall>d. Q dir1 d \<longrightarrow> Q dir2 d" "\<forall>d\<in>set xs. Q dir2 d" by simp_all
      from step Inr have "Q dir1 x" by simp
      with ih step ds show ?thesis by simp
    qed
  qed
qed

lemma list_all2_concat_map:
  assumes "\<And>x. x \<in> set xs \<Longrightarrow> list_all2 R (F x) (G x)"
  shows "list_all2 R (concat (map F xs)) (concat (map G xs))"
  using assms by (induction xs) (auto intro: list_all2_appendI)

lemma nth_concat_blocks:
  assumes "\<forall>xs\<in>set xss. length xs = n" and "i < length xss" and "j < n"
  shows "concat xss ! (i * n + j) = xss ! i ! j"
  using assms
proof (induction xss arbitrary: i)
  case Nil
  then show ?case by simp
next
  case (Cons xs xss)
  show ?case
  proof (cases i)
    case 0
    with Cons.prems show ?thesis by (simp add: nth_append)
  next
    case (Suc k)
    with Cons.prems have "concat xss ! (k * n + j) = xss ! k ! j"
      using Cons.IH [of k] by simp
    moreover have "length xs = n" using Cons.prems(1) by simp
    ultimately show ?thesis using Suc by (simp add: nth_append)
  qed
qed

lemma list_all2_same_map:
  "list_all2 (\<lambda>t d. g d = f t) ts ds \<Longrightarrow> map g ds = map f ts"
  by (induction rule: list_all2_induct) auto

lemma raster_stream_plan:
  "list_all2 (\<lambda>g t. \<forall>dir d dir'. g dir = (Inr d, dir') \<longrightarrow> raster_made ext t d)
     (raster_generate_glyphs ext fonts chars) (raster_plan ext fonts chars)"
  unfolding raster_generate_glyphs_def raster_plan_def
proof (rule list_all2_concat_map)
  fix font
  have fb: "raster_made ext
       (replacement_font, Inr (rid font @ str ''-replaceable''), str ''label:'' @ [65533]) d"
    if "raster_generate_glyph ext replacement_font (rid font @ str ''-replaceable'')
          (str ''label:'' @ replacement_character) dir = (Inr d, dir')" for dir d dir'
    using raster_generate_glyph_Inr [OF that]
    by (auto simp: raster_made_def replacement_character_def)
  have ch: "raster_made ext (filename font, name_for (ucd ext) (rid font) [c],
              dict_get label_specials [c] (str ''label:'' @ [c])) d"
    if "(case name_for (ucd ext) (rid font) [c] of
           Inl e \<Rightarrow> (Inl e, dir)
         | Inr name \<Rightarrow> raster_generate_glyph ext (filename font) name
              (dict_get label_specials [c] (str ''label:'' @ [c])) dir) = (Inr d, dir')"
    for c dir d dir'
  proof (cases "name_for (ucd ext) (rid font) [c]")
    case (Inl e)
    with that show ?thesis by simp
  next
    case (Inr n)
    with that raster_generate_glyph_Inr [of ext "filename font" n
        "dict_get label_specials [c] (str ''label:'' @ [c])" dir d dir']
    show ?thesis by (auto simp: raster_made_def)
  qed
  show "list_all2 (\<lambda>g t. \<forall>dir d dir'. g dir = (Inr d, dir') \<longrightarrow> raster_made ext t d)
     (raster_generate_glyph ext replacement_font (rid font @ str ''-replaceable'')
        (str ''label:'' @ replacement_character) #
      map (\<lambda>character dir.
             case name_for (ucd ext) (rid font) [character] of
               Inl e \<Rightarrow> (Inl e, dir)
             | Inr name \<Rightarrow> raster_generate_glyph ext (filename font) name
                  (dict_get label_specials [character] (str ''label:'' @ [character])) dir)
        chars)
     ((replacement_font, Inr (rid font @ str ''-replaceable''), str ''label:'' @ [65533]) #
      map (\<lambda>c. (filename font, name_for (ucd ext) (rid font) [c],
                 dict_get label_specials [c] (str ''label:'' @ [c]))) chars)"
    using fb ch by (auto simp: list_all2_map1 list_all2_map2 list_all2_same)
qed

lemma vector_stream_plan:
  "list_all2 (\<lambda>g t. \<forall>dir d dir'. g dir = (Inr d, dir') \<longrightarrow> vector_made ext t d)
     (vector_generate_glyphs ext fonts chars) (vector_plan ext fonts chars)"
  unfolding vector_generate_glyphs_def vector_plan_def
proof (rule list_all2_concat_map)
  fix font
  have fb: "vector_made ext (fontname font, Inr (vid font @ str ''-replaceable''), [65533]) d"
    if "vector_generate_glyph ext (fontname font) (vid font @ str ''-replaceable'')
          [65533] dir = (Inr d, dir')" for dir d dir'
    using vector_generate_glyph_Inr [OF that] by (auto simp: vector_made_def)
  have ch: "vector_made ext (fontname font, name_for (ucd ext) (vid font) [c], [c]) d"
    if "(case name_for (ucd ext) (vid font) [c] of
           Inl e \<Rightarrow> (Inl e, dir)
         | Inr name \<Rightarrow> vector_generate_glyph ext (fontname font) name [c] dir) = (Inr d, dir')"
    for c dir d dir'
  proof (cases "name_for (ucd ext) (vid font) [c]")
    case (Inl e)
    with that show ?thesis by simp
  next
    case (Inr n)
    with that vector_generate_glyph_Inr [of ext "fontname font" n "[c]" dir d dir']
    show ?thesis by (auto simp: vector_made_def)
  qed
  show "list_all2 (\<lambda>g t. \<forall>dir d dir'. g dir = (Inr d, dir') \<longrightarrow> vector_made ext t d)
     (vector_generate_glyph ext (fontname font) (vid font @ str ''-replaceable'') [65533] #
      map (\<lambda>character dir.
             case name_for (ucd ext) (vid font) [character] of
               Inl e \<Rightarrow> (Inl e, dir)
             | Inr name \<Rightarrow> vector_generate_glyph ext (fontname font) name [character] dir)
        chars)
     ((fontname font, Inr (vid font @ str ''-replaceable''), [65533]) #
      map (\<lambda>c. (fontname font, name_for (ucd ext) (vid font) [c], [c])) chars)"
    using fb ch by (auto simp: list_all2_map1 list_all2_map2 list_all2_same)
qed

lemma svg_name_not_temp: "h @ str ''.svg'' \<noteq> temp_svg"
proof
  assume "h @ str ''.svg'' = temp_svg"
  then have "rev (h @ str ''.svg'') = rev temp_svg" by simp
  then show False by (simp add: temp_svg_def str_def)
qed

lemma png_name_temp: "h @ str ''.png'' = temp_png \<longleftrightarrow> h = str ''tmp''"
proof
  assume "h @ str ''.png'' = temp_png"
  then have "h @ str ''.png'' = str ''tmp'' @ str ''.png''"
    by (simp add: temp_png_def str_def)
  then show "h = str ''tmp''" by simp
next
  assume "h = str ''tmp''"
  then show "h @ str ''.png'' = temp_png" by (simp add: temp_png_def str_def)
qed

lemma staged_iff:
  "staged ext sfx dir d \<longleftrightarrow>
     (\<exists>h b. getitem d (str ''assetId'') = Inr (JStr h) \<and>
            getitem d (str ''md5ext'') = Inr (JStr (h @ sfx)) \<and>
            dir (h @ sfx) = Some b \<and> hexdigest ext b = h)"
  by (auto simp: staged_def split: sum.splits json.splits option.splits)

lemma raster_generate_glyph_cases:
  assumes "raster_generate_glyph ext font name label dir = (r, dir')"
  shows "(dir' = dir \<and> r = Inl CalledProcessError) \<or>
         (\<exists>png. dir' = dir(temp_png \<mapsto> png) \<and> r = Inl SameFileError) \<or>
         (\<exists>png. r = Inr (raster_costume (hexdigest ext png) name) \<and>
                hexdigest ext png @ str ''.png'' \<noteq> temp_png \<and>
                dir' = dir(temp_png \<mapsto> png, hexdigest ext png @ str ''.png'' \<mapsto> png))"
  using assms
  by (auto simp: raster_generate_glyph_def md5sum_file_def shutil_copy_def Let_def
      split: option.splits sum.splits if_splits)

lemma vector_generate_glyph_cases:
  assumes "vector_generate_glyph ext font name ch dir = (r, dir')"
  shows "(dir' = dir(temp_svg \<mapsto> []) \<and> r = Inl UnicodeEncodeError) \<or>
         (\<exists>svg. r = Inr (vector_costume (hexdigest ext svg) name) \<and>
                dir' = dir(temp_svg \<mapsto> svg, hexdigest ext svg @ str ''.svg'' \<mapsto> svg))"
  using assms
  by (auto simp: vector_generate_glyph_def md5sum_file_def shutil_copy_def Let_def
      svg_name_not_temp [symmetric]
      split: option.splits sum.splits if_splits)

text \<open>The invariant of the raster stream: staged, under a name that is not the scratch file.\<close>

lemma staged_copy:
  assumes "staged ext sfx dir d" and "getitem d (str ''md5ext'') \<noteq> Inr (JStr tmp)"
    and "hexdigest ext new = h"
  shows "staged ext sfx (dir(tmp \<mapsto> any, h @ sfx \<mapsto> new)) d"
proof -
  from assms(1) obtain h0 b0 where d:
    "getitem d (str ''assetId'') = Inr (JStr h0)"
    "getitem d (str ''md5ext'') = Inr (JStr (h0 @ sfx))"
    "dir (h0 @ sfx) = Some b0" "hexdigest ext b0 = h0"
    unfolding staged_iff by blast
  from d(2) assms(2) have nt: "h0 @ sfx \<noteq> tmp" by auto
  show ?thesis
  proof (cases "h0 = h")
    case True
    with d(1,2) assms(3) show ?thesis
      unfolding staged_iff by simp
  next
    case False
    then have "h0 @ sfx \<noteq> h @ sfx" by simp
    with nt d show ?thesis
      unfolding staged_iff by simp
  qed
qed

lemma staged_scratch:
  assumes "staged ext sfx dir d" and "getitem d (str ''md5ext'') \<noteq> Inr (JStr tmp)"
  shows "staged ext sfx (dir(tmp \<mapsto> any)) d"
proof -
  from assms(1) obtain h0 b0 where d:
    "getitem d (str ''assetId'') = Inr (JStr h0)"
    "getitem d (str ''md5ext'') = Inr (JStr (h0 @ sfx))"
    "dir (h0 @ sfx) = Some b0" "hexdigest ext b0 = h0"
    unfolding staged_iff by blast
  from d(2) assms(2) have nt: "h0 @ sfx \<noteq> tmp" by auto
  with d show ?thesis
    unfolding staged_iff by simp
qed

lemma staged_svg_not_temp:
  assumes "staged ext (str ''.svg'') dir d"
  shows "getitem d (str ''md5ext'') \<noteq> Inr (JStr temp_svg)"
proof -
  from assms obtain h0 where "getitem d (str ''md5ext'') = Inr (JStr (h0 @ str ''.svg''))"
    unfolding staged_iff by blast
  with svg_name_not_temp [of h0] show ?thesis by simp
qed

lemma raster_step_invariant:
  assumes "raster_generate_glyph ext font name label dir = (r, dir')"
  shows "(\<forall>d. staged ext (str ''.png'') dir d \<and> getitem d (str ''md5ext'') \<noteq> Inr (JStr temp_png)
             \<longrightarrow> staged ext (str ''.png'') dir' d \<and>
                 getitem d (str ''md5ext'') \<noteq> Inr (JStr temp_png)) \<and>
         (\<forall>d. r = Inr d \<longrightarrow> staged ext (str ''.png'') dir' d \<and>
                 getitem d (str ''md5ext'') \<noteq> Inr (JStr temp_png))"
proof -
  from raster_generate_glyph_cases [OF assms]
  consider "dir' = dir" "r = Inl CalledProcessError"
    | png where "dir' = dir(temp_png \<mapsto> png)" "r = Inl SameFileError"
    | png where "r = Inr (raster_costume (hexdigest ext png) name)"
        "hexdigest ext png @ str ''.png'' \<noteq> temp_png"
        "dir' = dir(temp_png \<mapsto> png, hexdigest ext png @ str ''.png'' \<mapsto> png)"
    by blast
  then show ?thesis
  proof cases
    case 1
    then show ?thesis by simp
  next
    case 2
    then show ?thesis using staged_scratch by simp
  next
    case 3
    have new: "staged ext (str ''.png'') dir' (raster_costume (hexdigest ext png) name)"
      unfolding staged_iff 3(3) by (simp add: raster_costume_fields)
    have nt: "getitem (raster_costume (hexdigest ext png) name) (str ''md5ext'')
                \<noteq> Inr (JStr temp_png)"
      using 3(2) by (simp add: raster_costume_fields)
    have keep: "staged ext (str ''.png'') dir' d"
      if "staged ext (str ''.png'') dir d" "getitem d (str ''md5ext'') \<noteq> Inr (JStr temp_png)"
      for d
      unfolding 3(3) using staged_copy [OF that] by simp
    show ?thesis using new nt keep 3(1) by simp
  qed
qed

lemma vector_step_invariant:
  assumes "vector_generate_glyph ext font name ch dir = (r, dir')"
  shows "(\<forall>d. staged ext (str ''.svg'') dir d \<longrightarrow> staged ext (str ''.svg'') dir' d) \<and>
         (\<forall>d. r = Inr d \<longrightarrow> staged ext (str ''.svg'') dir' d)"
proof -
  from vector_generate_glyph_cases [OF assms]
  consider "dir' = dir(temp_svg \<mapsto> [])" "r = Inl UnicodeEncodeError"
    | svg where "r = Inr (vector_costume (hexdigest ext svg) name)"
        "dir' = dir(temp_svg \<mapsto> svg, hexdigest ext svg @ str ''.svg'' \<mapsto> svg)"
    by blast
  then show ?thesis
  proof cases
    case 1
    then show ?thesis using staged_scratch staged_svg_not_temp by simp
  next
    case 2
    have new: "staged ext (str ''.svg'') dir' (vector_costume (hexdigest ext svg) name)"
      unfolding staged_iff 2(2) by (simp add: vector_costume_fields)
    have keep: "staged ext (str ''.svg'') dir' d" if "staged ext (str ''.svg'') dir d" for d
      unfolding 2(2) using staged_copy [OF that staged_svg_not_temp [OF that]] by simp
    show ?thesis using new keep 2(1) by simp
  qed
qed

lemma raster_stream_steps:
  assumes "g \<in> set (raster_generate_glyphs ext fonts chars)" and "g dir = (r, dir')"
  shows "(dir' = dir \<and> (\<exists>e. r = Inl e)) \<or>
         (\<exists>font name label. raster_generate_glyph ext font name label dir = (r, dir'))"
  using assms
  by (auto simp: raster_generate_glyphs_def split: sum.splits)

lemma vector_stream_steps:
  assumes "g \<in> set (vector_generate_glyphs ext fonts chars)" and "g dir = (r, dir')"
  shows "(dir' = dir \<and> (\<exists>e. r = Inl e)) \<or>
         (\<exists>font name ch. vector_generate_glyph ext font name ch dir = (r, dir'))"
  using assms
  by (auto simp: vector_generate_glyphs_def split: sum.splits)

lemma raster_stream_staged:
  assumes "pull (raster_generate_glyphs ext fonts chars) dir = ((ds, r), dir')"
  shows "\<forall>d\<in>set ds. staged ext (str ''.png'') dir' d"
proof -
  let ?Q = "\<lambda>dir d. staged ext (str ''.png'') dir d \<and>
              getitem d (str ''md5ext'') \<noteq> Inr (JStr temp_png)"
  have "\<forall>g\<in>set (raster_generate_glyphs ext fonts chars). \<forall>dir r dir'. g dir = (r, dir') \<longrightarrow>
          (\<forall>d. ?Q dir d \<longrightarrow> ?Q dir' d) \<and> (\<forall>d. r = Inr d \<longrightarrow> ?Q dir' d)"
  proof (intro ballI allI impI)
    fix g dir r dir'
    assume g: "g \<in> set (raster_generate_glyphs ext fonts chars)" and run: "g dir = (r, dir')"
    from raster_stream_steps [OF g run]
    show "(\<forall>d. ?Q dir d \<longrightarrow> ?Q dir' d) \<and> (\<forall>d. r = Inr d \<longrightarrow> ?Q dir' d)"
    proof
      assume "dir' = dir \<and> (\<exists>e. r = Inl e)"
      then show ?thesis by auto
    next
      assume "\<exists>font name label. raster_generate_glyph ext font name label dir = (r, dir')"
      then obtain font name label
        where "raster_generate_glyph ext font name label dir = (r, dir')" by blast
      from raster_step_invariant [OF this] show ?thesis .
    qed
  qed
  from pull_invariant [of _ ?Q, OF this assms] show ?thesis by simp
qed

lemma vector_stream_staged:
  assumes "pull (vector_generate_glyphs ext fonts chars) dir = ((ds, r), dir')"
  shows "\<forall>d\<in>set ds. staged ext (str ''.svg'') dir' d"
proof -
  let ?Q = "\<lambda>dir d. staged ext (str ''.svg'') dir d"
  have "\<forall>g\<in>set (vector_generate_glyphs ext fonts chars). \<forall>dir r dir'. g dir = (r, dir') \<longrightarrow>
          (\<forall>d. ?Q dir d \<longrightarrow> ?Q dir' d) \<and> (\<forall>d. r = Inr d \<longrightarrow> ?Q dir' d)"
  proof (intro ballI allI impI)
    fix g dir r dir'
    assume g: "g \<in> set (vector_generate_glyphs ext fonts chars)" and run: "g dir = (r, dir')"
    from vector_stream_steps [OF g run]
    show "(\<forall>d. ?Q dir d \<longrightarrow> ?Q dir' d) \<and> (\<forall>d. r = Inr d \<longrightarrow> ?Q dir' d)"
    proof
      assume "dir' = dir \<and> (\<exists>e. r = Inl e)"
      then show ?thesis by auto
    next
      assume "\<exists>font name ch. vector_generate_glyph ext font name ch dir = (r, dir')"
      then obtain font name ch
        where "vector_generate_glyph ext font name ch dir = (r, dir')" by blast
      from vector_step_invariant [OF this] show ?thesis .
    qed
  qed
  from pull_invariant [of _ ?Q, OF this assms] show ?thesis by simp
qed

lemma utf8_encode_append:
  "utf8_encode (a @ b) \<noteq> None \<longleftrightarrow> utf8_encode a \<noteq> None \<and> utf8_encode b \<noteq> None"
  by (induction a) (auto split: option.splits)

lemma utf8_cp_byte: "n < 256 \<Longrightarrow> utf8_cp n \<noteq> None"
  by (simp add: utf8_cp_def)

lemma utf8_encode_str: "utf8_encode (str s) \<noteq> None"
proof (induction s)
  case Nil
  then show ?case by (simp add: str_def)
next
  case (Cons c s)
  have "utf8_cp (of_char c) \<noteq> None"
    by (rule utf8_cp_byte) (rule nat_of_char_less_256)
  with Cons show ?case by (auto simp: str_def split: option.splits)
qed

lemma decimal_vector: "decimal (nat vector_width) = str ''40''" "decimal (nat vector_height) = str ''50''"
  by (simp_all add: vector_width_def vector_height_def decimal.simps str_def)

lemma svg_letter_encodable:
  assumes "utf8_encode font \<noteq> None" and "utf8_encode ch \<noteq> None"
  shows "utf8_encode (svg_letter ch font) \<noteq> None"
proof -
  have r: "utf8_encode (case map_of replacements ch of Some r \<Rightarrow> r | None \<Rightarrow> ch) \<noteq> None"
    using assms(2) utf8_encode_str
    by (auto simp: replacements_def split: option.splits if_splits)
  show ?thesis
    unfolding svg_letter_def Let_def decimal_vector
    using assms(1) r by (simp only: utf8_encode_append utf8_encode_str simp_thms)
qed

lemma raster_generate_glyph_succeeds:
  assumes "convert ext (convert_argv font label) = Some png"
    and "hexdigest ext png \<noteq> str ''tmp''"
  shows "\<exists>d dir'. raster_generate_glyph ext font name label dir = (Inr d, dir')"
  using assms
  by (simp add: raster_generate_glyph_def md5sum_file_def shutil_copy_def png_name_temp eq_commute [of temp_png])

lemma vector_generate_glyph_succeeds:
  assumes "utf8_encode font \<noteq> None" and "utf8_encode ch \<noteq> None"
  shows "\<exists>d dir'. vector_generate_glyph ext font name ch dir = (Inr d, dir')"
proof -
  from svg_letter_encodable [OF assms] obtain svg
    where "utf8_encode (svg_letter ch font) = Some svg" by blast
  then show ?thesis
    by (simp add: vector_generate_glyph_def md5sum_file_def shutil_copy_def
        svg_name_not_temp [symmetric])
qed

lemma raster_stream_succeeds:
  assumes "\<forall>argv. convert ext argv \<noteq> None" and "\<forall>b. hexdigest ext b \<noteq> str ''tmp''"
    and "\<forall>f\<in>set fonts. \<forall>c\<in>set chars. \<exists>n. name_for (ucd ext) (rid f) [c] = Inr n"
  shows "snd (fst (pull (raster_generate_glyphs ext fonts chars) dir)) = None"
proof (rule pull_succeeds, intro ballI allI)
  fix g dir
  assume "g \<in> set (raster_generate_glyphs ext fonts chars)"
  then consider f where "f \<in> set fonts"
      "g = raster_generate_glyph ext replacement_font (rid f @ str ''-replaceable'')
             (str ''label:'' @ replacement_character)"
    | f c where "f \<in> set fonts" "c \<in> set chars"
      "g = (\<lambda>dir. case name_for (ucd ext) (rid f) [c] of
                    Inl e \<Rightarrow> (Inl e, dir)
                  | Inr name \<Rightarrow> raster_generate_glyph ext (filename f) name
                       (dict_get label_specials [c] (str ''label:'' @ [c])) dir)"
    by (auto simp: raster_generate_glyphs_def)
  then show "\<exists>d dir'. g dir = (Inr d, dir')"
  proof cases
    case 1
    from assms(1) obtain png where "convert ext (convert_argv replacement_font
        (str ''label:'' @ replacement_character)) = Some png" by fastforce
    from raster_generate_glyph_succeeds [OF this] assms(2) 1 show ?thesis by simp
  next
    case 2
    from assms(3) 2 obtain n where n: "name_for (ucd ext) (rid f) [c] = Inr n" by blast
    from assms(1) obtain png where "convert ext (convert_argv (filename f)
        (dict_get label_specials [c] (str ''label:'' @ [c]))) = Some png" by fastforce
    from raster_generate_glyph_succeeds [OF this] assms(2) 2 n show ?thesis by simp
  qed
qed

lemma vector_stream_succeeds:
  assumes "\<forall>f\<in>set fonts. utf8_encode (fontname f) \<noteq> None"
    and "utf8_encode chars \<noteq> None"
    and "\<forall>f\<in>set fonts. \<forall>c\<in>set chars. \<exists>n. name_for (ucd ext) (vid f) [c] = Inr n"
  shows "snd (fst (pull (vector_generate_glyphs ext fonts chars) dir)) = None"
proof (rule pull_succeeds, intro ballI allI)
  fix g dir
  have enc: "utf8_encode [c] \<noteq> None" if "c \<in> set chars" for c
  proof -
    from that obtain a b where "chars = a @ [c] @ b"
      by (metis append_Cons append_Nil split_list)
    with assms(2) show ?thesis by (simp only: utf8_encode_append) simp
  qed
  have fffd: "utf8_encode [65533] \<noteq> None" by (simp add: utf8_cp_def)
  assume "g \<in> set (vector_generate_glyphs ext fonts chars)"
  then consider f where "f \<in> set fonts"
      "g = vector_generate_glyph ext (fontname f) (vid f @ str ''-replaceable'') [65533]"
    | f c where "f \<in> set fonts" "c \<in> set chars"
      "g = (\<lambda>dir. case name_for (ucd ext) (vid f) [c] of
                    Inl e \<Rightarrow> (Inl e, dir)
                  | Inr name \<Rightarrow> vector_generate_glyph ext (fontname f) name [c] dir)"
    by (auto simp: vector_generate_glyphs_def)
  then show "\<exists>d dir'. g dir = (Inr d, dir')"
  proof cases
    case 1
    with assms(1) have "utf8_encode (fontname f) \<noteq> None" by simp
    from vector_generate_glyph_succeeds [OF this fffd] 1 show ?thesis by simp
  next
    case 2
    from assms(3) 2 obtain n where n: "name_for (ucd ext) (vid f) [c] = Inr n" by blast
    from assms(1) 2 have "utf8_encode (fontname f) \<noteq> None" by simp
    from vector_generate_glyph_succeeds [OF this enc [OF 2(2)]] 2 n show ?thesis by simp
  qed
qed

lemma raster_made_name:
  "raster_made ext t d \<Longrightarrow> getitem d (str ''name'') = name_field (fst (snd t))"
  by (auto simp: raster_made_def name_field_def raster_costume_fields
      split: prod.splits sum.splits option.splits)

lemma vector_made_name:
  "vector_made ext t d \<Longrightarrow> getitem d (str ''name'') = name_field (fst (snd t))"
  by (auto simp: vector_made_def name_field_def vector_costume_fields
      split: prod.splits sum.splits option.splits)

lemma length_raster_plan:
  "length (raster_plan ext fonts chars) = length fonts * (1 + length chars)"
  by (induction fonts) (simp_all add: raster_plan_def)

lemma length_vector_plan:
  "length (vector_plan ext fonts chars) = length fonts * (1 + length chars)"
  by (induction fonts) (simp_all add: vector_plan_def)

lemma raster_plan_names:
  "map (\<lambda>t. name_field (fst (snd t))) (raster_plan ext fonts chars) =
     concat (map (\<lambda>f. Inr (JStr (rid f @ str ''-replaceable''))
                      # map (\<lambda>c. name_field (name_for (ucd ext) (rid f) [c])) chars) fonts)"
  by (simp add: raster_plan_def map_concat o_def name_field_def)

lemma vector_plan_names:
  "map (\<lambda>t. name_field (fst (snd t))) (vector_plan ext fonts chars) =
     concat (map (\<lambda>f. Inr (JStr (vid f @ str ''-replaceable''))
                      # map (\<lambda>c. name_field (name_for (ucd ext) (vid f) [c])) chars) fonts)"
  by (simp add: vector_plan_def map_concat o_def name_field_def)

lemma stream_names:
  assumes "list_all2 P (take (length ds) plan) ds"
    and "\<And>t d. P t d \<Longrightarrow> getitem d (str ''name'') = name_field (fst (snd t))"
  shows "map (\<lambda>d. getitem d (str ''name'')) ds =
           take (length ds) (map (\<lambda>t. name_field (fst (snd t))) plan)"
proof -
  from assms have "list_all2 (\<lambda>t d. getitem d (str ''name'') = name_field (fst (snd t)))
      (take (length ds) plan) ds"
    by (auto elim: list_all2_mono)
  from list_all2_same_map [OF this] show ?thesis by (simp add: take_map)
qed

lemma raster_stream_order:
  assumes "pull (raster_generate_glyphs ext fonts chars) dir = ((ds, r), dir')"
  shows "map (\<lambda>d. getitem d (str ''name'')) ds =
           take (length ds)
             (concat (map (\<lambda>f. Inr (JStr (rid f @ str ''-replaceable''))
                      # map (\<lambda>c. name_field (name_for (ucd ext) (rid f) [c])) chars) fonts))"
    and "r = None \<longrightarrow> length ds = length fonts * (1 + length chars)"
    and "ds \<noteq> [] \<longrightarrow> fonts \<noteq> [] \<and>
           getitem (hd ds) (str ''name'') = Inr (JStr (rid (hd fonts) @ str ''-replaceable''))"
proof -
  from pull_list_all2 [OF raster_stream_plan assms]
  have la: "list_all2 (raster_made ext) (take (length ds) (raster_plan ext fonts chars)) ds"
    and le: "length ds \<le> length (raster_plan ext fonts chars)"
    and full: "r = None \<longrightarrow> length ds = length (raster_plan ext fonts chars)"
    by simp_all
  from stream_names [OF la raster_made_name]
  show names: "map (\<lambda>d. getitem d (str ''name'')) ds =
           take (length ds)
             (concat (map (\<lambda>f. Inr (JStr (rid f @ str ''-replaceable''))
                      # map (\<lambda>c. name_field (name_for (ucd ext) (rid f) [c])) chars) fonts))"
    by (simp add: raster_plan_names)
  from full show "r = None \<longrightarrow> length ds = length fonts * (1 + length chars)"
    by (simp add: length_raster_plan)
  show "ds \<noteq> [] \<longrightarrow> fonts \<noteq> [] \<and>
           getitem (hd ds) (str ''name'') = Inr (JStr (rid (hd fonts) @ str ''-replaceable''))"
  proof
    assume ne: "ds \<noteq> []"
    with le have "fonts \<noteq> []" by (auto simp: length_raster_plan)
    then obtain f fs where f: "fonts = f # fs" by (cases fonts) auto
    from ne obtain d ds' where d: "ds = d # ds'" by (cases ds) auto
    from names f d show "fonts \<noteq> [] \<and>
           getitem (hd ds) (str ''name'') = Inr (JStr (rid (hd fonts) @ str ''-replaceable''))"
      by simp
  qed
qed

lemma vector_stream_order:
  assumes "pull (vector_generate_glyphs ext fonts chars) dir = ((ds, r), dir')"
  shows "map (\<lambda>d. getitem d (str ''name'')) ds =
           take (length ds)
             (concat (map (\<lambda>f. Inr (JStr (vid f @ str ''-replaceable''))
                      # map (\<lambda>c. name_field (name_for (ucd ext) (vid f) [c])) chars) fonts))"
    and "r = None \<longrightarrow> length ds = length fonts * (1 + length chars)"
    and "ds \<noteq> [] \<longrightarrow> fonts \<noteq> [] \<and>
           getitem (hd ds) (str ''name'') = Inr (JStr (vid (hd fonts) @ str ''-replaceable''))"
proof -
  from pull_list_all2 [OF vector_stream_plan assms]
  have la: "list_all2 (vector_made ext) (take (length ds) (vector_plan ext fonts chars)) ds"
    and le: "length ds \<le> length (vector_plan ext fonts chars)"
    and full: "r = None \<longrightarrow> length ds = length (vector_plan ext fonts chars)"
    by simp_all
  from stream_names [OF la vector_made_name]
  show names: "map (\<lambda>d. getitem d (str ''name'')) ds =
           take (length ds)
             (concat (map (\<lambda>f. Inr (JStr (vid f @ str ''-replaceable''))
                      # map (\<lambda>c. name_field (name_for (ucd ext) (vid f) [c])) chars) fonts))"
    by (simp add: vector_plan_names)
  from full show "r = None \<longrightarrow> length ds = length fonts * (1 + length chars)"
    by (simp add: length_vector_plan)
  show "ds \<noteq> [] \<longrightarrow> fonts \<noteq> [] \<and>
           getitem (hd ds) (str ''name'') = Inr (JStr (vid (hd fonts) @ str ''-replaceable''))"
  proof
    assume ne: "ds \<noteq> []"
    with le have "fonts \<noteq> []" by (auto simp: length_vector_plan)
    then obtain f fs where f: "fonts = f # fs" by (cases fonts) auto
    from ne obtain d ds' where d: "ds = d # ds'" by (cases ds) auto
    from names f d show "fonts \<noteq> [] \<and>
           getitem (hd ds) (str ''name'') = Inr (JStr (vid (hd fonts) @ str ''-replaceable''))"
      by simp
  qed
qed

lemma plan_fallback:
  assumes "i < length fonts"
  shows "concat (map (\<lambda>font. fb font # map (ch font) chars) fonts) ! (i * (1 + length chars)) =
           fb (fonts ! i)"
proof -
  let ?xss = "map (\<lambda>font. fb font # map (ch font) chars) fonts"
  have "\<forall>xs\<in>set ?xss. length xs = 1 + length chars" by auto
  from nth_concat_blocks [OF this, of i 0] assms show ?thesis by simp
qed

lemma raster_stream_fallback:
  assumes "pull (raster_generate_glyphs ext fonts chars) dir = ((ds, r), dir')"
    and "i < length fonts" and "i * (1 + length chars) < length ds"
  shows "\<exists>png. convert ext (convert_argv replacement_font (str ''label:'' @ [65533])) = Some png \<and>
           ds ! (i * (1 + length chars)) =
             raster_costume (hexdigest ext png) (rid (fonts ! i) @ str ''-replaceable'')"
proof -
  let ?j = "i * (1 + length chars)"
  from pull_list_all2 [OF raster_stream_plan assms(1)]
  have la: "list_all2 (raster_made ext) (take (length ds) (raster_plan ext fonts chars)) ds"
    and le: "length ds \<le> length (raster_plan ext fonts chars)"
    by simp_all
  from le assms(3) have "?j < length (take (length ds) (raster_plan ext fonts chars))" by simp
  from list_all2_nthD [OF la this] assms(3)
  have "raster_made ext (raster_plan ext fonts chars ! ?j) (ds ! ?j)" by simp
  moreover have "raster_plan ext fonts chars ! ?j =
      (replacement_font, Inr (rid (fonts ! i) @ str ''-replaceable''), str ''label:'' @ [65533])"
    unfolding raster_plan_def by (rule plan_fallback [OF assms(2)])
  ultimately show ?thesis
    by (auto simp: raster_made_def split: option.splits)
qed

lemma vector_stream_fallback:
  assumes "pull (vector_generate_glyphs ext fonts chars) dir = ((ds, r), dir')"
    and "i < length fonts" and "i * (1 + length chars) < length ds"
  shows "\<exists>svg. utf8_encode (svg_letter [65533] (fontname (fonts ! i))) = Some svg \<and>
           ds ! (i * (1 + length chars)) =
             vector_costume (hexdigest ext svg) (vid (fonts ! i) @ str ''-replaceable'')"
proof -
  let ?j = "i * (1 + length chars)"
  from pull_list_all2 [OF vector_stream_plan assms(1)]
  have la: "list_all2 (vector_made ext) (take (length ds) (vector_plan ext fonts chars)) ds"
    and le: "length ds \<le> length (vector_plan ext fonts chars)"
    by simp_all
  from le assms(3) have "?j < length (take (length ds) (vector_plan ext fonts chars))" by simp
  from list_all2_nthD [OF la this] assms(3)
  have "vector_made ext (vector_plan ext fonts chars ! ?j) (ds ! ?j)" by simp
  moreover have "vector_plan ext fonts chars ! ?j =
      (fontname (fonts ! i), Inr (vid (fonts ! i) @ str ''-replaceable''), [65533])"
    unfolding vector_plan_def by (rule plan_fallback [OF assms(2)])
  ultimately show ?thesis
    by (auto simp: vector_made_def split: option.splits)
qed

lemmas raster_eval = raster_generate_glyphs_def raster_generate_glyph_def convert_argv_def
  md5sum_file_def shutil_copy_def toy_ext_def dict_get_def label_specials_def
  replacement_font_def replacement_character_def temp_png_def ex_rfont_def toy_digest_def
  Let_def

lemma toy_raster_glyph:
  "\<exists>dir'. raster_generate_glyph toy_ext (str ''S.ttf'') (str ''sans-a'') (str ''label:a'')
            Map.empty = (Inr (raster_costume (toy_digest 7) (str ''sans-a'')), dir')"
  by (simp add: raster_eval str_def)

lemma toy_raster_run:
  "\<exists>dir'. pull (raster_generate_glyphs toy_ext [ex_rfont] (str ''a<'')) Map.empty =
     (([raster_costume (toy_digest 7) (str ''sans-replaceable''),
        raster_costume (toy_digest 7) (str ''sans-a''),
        raster_costume (toy_digest 7) (str ''sans-special-less-than-sign'')], None), dir')"
  by (simp add: raster_eval name_for_eval str_def)

lemma toy_vector_glyph:
  "\<exists>svg dir'. utf8_encode (svg_letter (str ''a'') (str ''Serif'')) = Some svg \<and>
     vector_generate_glyph toy_ext (str ''Serif'') (str ''serif-a'') (str ''a'') Map.empty =
       (Inr (vector_costume (hexdigest toy_ext svg) (str ''serif-a'')), dir')"
proof -
  have "utf8_encode (svg_letter (str ''a'') (str ''Serif'')) \<noteq> None"
    by (rule svg_letter_encodable) (rule utf8_encode_str)+
  then obtain svg where "utf8_encode (svg_letter (str ''a'') (str ''Serif'')) = Some svg"
    by blast
  then show ?thesis
    by (simp add: vector_generate_glyph_def md5sum_file_def shutil_copy_def
        svg_name_not_temp [symmetric])
qed

lemma vector_stream_pair:
  assumes "name_for (ucd ext) (vid font) [c] = Inr n"
    and "name_for (ucd ext) (vid font) [c'] = Inr n'"
  shows "vector_generate_glyphs ext [font] [c, c'] =
           [vector_generate_glyph ext (fontname font) (vid font @ str ''-replaceable'') [65533],
            vector_generate_glyph ext (fontname font) n [c],
            vector_generate_glyph ext (fontname font) n' [c']]"
  using assms by (simp add: vector_generate_glyphs_def)

lemma toy_vector_run:
  "\<exists>s1 s2 s3 dir'.
     utf8_encode (svg_letter [65533] (str ''Serif'')) = Some s1 \<and>
     utf8_encode (svg_letter (str ''a'') (str ''Serif'')) = Some s2 \<and>
     utf8_encode (svg_letter (str ''<'') (str ''Serif'')) = Some s3 \<and>
     pull (vector_generate_glyphs toy_ext [ex_vfont] (str ''a<'')) Map.empty =
       (([vector_costume (hexdigest toy_ext s1) (str ''serif-replaceable''),
          vector_costume (hexdigest toy_ext s2) (str ''serif-a''),
          vector_costume (hexdigest toy_ext s3) (str ''serif-special-less-than-sign'')], None),
        dir')"
proof -
  let ?g1 = "vector_generate_glyph toy_ext (str ''Serif'') (str ''serif-replaceable'') [65533]"
  let ?g2 = "vector_generate_glyph toy_ext (str ''Serif'') (str ''serif-a'') (str ''a'')"
  let ?g3 = "vector_generate_glyph toy_ext (str ''Serif'')
               (str ''serif-special-less-than-sign'') (str ''<'')"
  have f: "utf8_encode [65533] \<noteq> None" by (simp add: utf8_cp_def)
  from vector_generate_glyph_succeeds [OF utf8_encode_str f]
  obtain d1 dir1 where g1: "?g1 Map.empty = (Inr d1, dir1)" by blast
  from vector_generate_glyph_succeeds [OF utf8_encode_str utf8_encode_str]
  obtain d2 dir2 where g2: "?g2 dir1 = (Inr d2, dir2)" by blast
  from vector_generate_glyph_succeeds [OF utf8_encode_str utf8_encode_str]
  obtain d3 dir3 where g3: "?g3 dir2 = (Inr d3, dir3)" by blast
  from vector_generate_glyph_Inr [OF g1] obtain s1
    where s1: "utf8_encode (svg_letter [65533] (str ''Serif'')) = Some s1"
      "d1 = vector_costume (hexdigest toy_ext s1) (str ''serif-replaceable'')"
    by blast
  from vector_generate_glyph_Inr [OF g2] obtain s2
    where s2: "utf8_encode (svg_letter (str ''a'') (str ''Serif'')) = Some s2"
      "d2 = vector_costume (hexdigest toy_ext s2) (str ''serif-a'')"
    by blast
  from vector_generate_glyph_Inr [OF g3] obtain s3
    where s3: "utf8_encode (svg_letter (str ''<'') (str ''Serif'')) = Some s3"
      "d3 = vector_costume (hexdigest toy_ext s3) (str ''serif-special-less-than-sign'')"
    by blast
  have n: "name_for (ucd toy_ext) (vid ex_vfont) [97] = Inr (str ''serif-a'')"
    "name_for (ucd toy_ext) (vid ex_vfont) [60] = Inr (str ''serif-special-less-than-sign'')"
    by (simp_all add: toy_ext_def ex_vfont_def name_for_eval str_def)
  have "vector_generate_glyphs toy_ext [ex_vfont] (str ''a<'') = [?g1, ?g2, ?g3]"
    using vector_stream_pair [OF n] by (simp add: ex_vfont_def str_def)
  with g1 g2 g3 have "pull (vector_generate_glyphs toy_ext [ex_vfont] (str ''a<'')) Map.empty =
      (([d1, d2, d3], None), dir3)"
    by simp
  with s1 s2 s3 show ?thesis by blast
qed

text \<open>
  C5: the descriptors the stream yields carry, in order, the names of the configured
  fonts' groups: for each font the fallback \<open>{font_id}-replaceable\<close> and then the name of
  each character of the character set. What has been yielded when the stream stops is
  always a beginning of that list; it is the whole list when no step raises, and no step
  raises when the renderer succeeds, no digest is \<open>tmp\<close> and every character has a name
  (raster), or when the font names and the characters can be encoded and every
  character has a name (vector). If anything is yielded, the font list is not empty and
  the first descriptor is the first font's fallback.
\<close>

theorem glyph_stream_order:
  assumes "pull (raster_generate_glyphs ext rfonts rchars) rdir = ((ds, r), dir')"
    and "pull (vector_generate_glyphs ext vfonts vchars) vdir = ((es, q), dir'')"
  shows "map (\<lambda>d. getitem d (str ''name'')) ds =
           take (length ds)
             (concat (map (\<lambda>f. Inr (JStr (rid f @ str ''-replaceable''))
                      # map (\<lambda>c. name_field (name_for (ucd ext) (rid f) [c])) rchars) rfonts)) \<and>
         (r = None \<longrightarrow> length ds = length rfonts * (1 + length rchars)) \<and>
         ((\<forall>argv. convert ext argv \<noteq> None) \<and> (\<forall>b. hexdigest ext b \<noteq> str ''tmp'') \<and>
          (\<forall>f\<in>set rfonts. \<forall>c\<in>set rchars. \<exists>n. name_for (ucd ext) (rid f) [c] = Inr n)
            \<longrightarrow> r = None) \<and>
         (ds \<noteq> [] \<longrightarrow> rfonts \<noteq> [] \<and>
            getitem (hd ds) (str ''name'') = Inr (JStr (rid (hd rfonts) @ str ''-replaceable''))) \<and>
         map (\<lambda>d. getitem d (str ''name'')) es =
           take (length es)
             (concat (map (\<lambda>f. Inr (JStr (vid f @ str ''-replaceable''))
                      # map (\<lambda>c. name_field (name_for (ucd ext) (vid f) [c])) vchars) vfonts)) \<and>
         (q = None \<longrightarrow> length es = length vfonts * (1 + length vchars)) \<and>
         ((\<forall>f\<in>set vfonts. utf8_encode (fontname f) \<noteq> None) \<and> utf8_encode vchars \<noteq> None \<and>
          (\<forall>f\<in>set vfonts. \<forall>c\<in>set vchars. \<exists>n. name_for (ucd ext) (vid f) [c] = Inr n)
            \<longrightarrow> q = None) \<and>
         (es \<noteq> [] \<longrightarrow> vfonts \<noteq> [] \<and>
            getitem (hd es) (str ''name'') = Inr (JStr (vid (hd vfonts) @ str ''-replaceable'')))"
proof -
  have rs: "r = None"
    if "(\<forall>argv. convert ext argv \<noteq> None) \<and> (\<forall>b. hexdigest ext b \<noteq> str ''tmp'') \<and>
          (\<forall>f\<in>set rfonts. \<forall>c\<in>set rchars. \<exists>n. name_for (ucd ext) (rid f) [c] = Inr n)"
    using raster_stream_succeeds [of ext rfonts rchars rdir] that assms(1) by simp
  have vs: "q = None"
    if "(\<forall>f\<in>set vfonts. utf8_encode (fontname f) \<noteq> None) \<and> utf8_encode vchars \<noteq> None \<and>
          (\<forall>f\<in>set vfonts. \<forall>c\<in>set vchars. \<exists>n. name_for (ucd ext) (vid f) [c] = Inr n)"
    using vector_stream_succeeds [of vfonts vchars ext vdir] that assms(2) by simp
  show ?thesis
    using raster_stream_order [OF assms(1)] vector_stream_order [OF assms(2)] rs vs
    by blast
qed

lemma toy_names:
  "name_for (ucd toy_ext) (str ''sans'') [97] = Inr (str ''sans-a'')"
  "name_for (ucd toy_ext) (str ''sans'') [60] = Inr (str ''sans-special-less-than-sign'')"
  "name_for (ucd toy_ext) (str ''serif'') [97] = Inr (str ''serif-a'')"
  "name_for (ucd toy_ext) (str ''serif'') [60] = Inr (str ''serif-special-less-than-sign'')"
  by (simp_all add: toy_ext_def name_for_eval str_def)

theorem glyph_stream_order_witness:
  "\<exists>s1 s2 s3 dir' dir''.
     pull (raster_generate_glyphs toy_ext [ex_rfont] (str ''a<'')) Map.empty =
       (([raster_costume (toy_digest 7) (str ''sans-replaceable''),
          raster_costume (toy_digest 7) (str ''sans-a''),
          raster_costume (toy_digest 7) (str ''sans-special-less-than-sign'')], None), dir') \<and>
     pull (vector_generate_glyphs toy_ext [ex_vfont] (str ''a<'')) Map.empty =
       (([vector_costume (hexdigest toy_ext s1) (str ''serif-replaceable''),
          vector_costume (hexdigest toy_ext s2) (str ''serif-a''),
          vector_costume (hexdigest toy_ext s3) (str ''serif-special-less-than-sign'')], None),
        dir'') \<and>
     map (\<lambda>d. getitem d (str ''name''))
        [raster_costume (toy_digest 7) (str ''sans-replaceable''),
         raster_costume (toy_digest 7) (str ''sans-a''),
         raster_costume (toy_digest 7) (str ''sans-special-less-than-sign'')] =
       [Inr (JStr (str ''sans-replaceable'')), Inr (JStr (str ''sans-a'')),
        Inr (JStr (str ''sans-special-less-than-sign''))] \<and>
     map (\<lambda>d. getitem d (str ''name''))
        [vector_costume (hexdigest toy_ext s1) (str ''serif-replaceable''),
         vector_costume (hexdigest toy_ext s2) (str ''serif-a''),
         vector_costume (hexdigest toy_ext s3) (str ''serif-special-less-than-sign'')] =
       [Inr (JStr (str ''serif-replaceable'')), Inr (JStr (str ''serif-a'')),
        Inr (JStr (str ''serif-special-less-than-sign''))] \<and>
     getitem (raster_costume (toy_digest 7) (str ''sans-replaceable'')) (str ''name'') =
       Inr (JStr (str ''sans-replaceable'')) \<and>
     getitem (vector_costume (hexdigest toy_ext s1) (str ''serif-replaceable'')) (str ''name'') =
       Inr (JStr (str ''serif-replaceable''))"
proof -
  from toy_raster_run obtain dir' where
    r: "pull (raster_generate_glyphs toy_ext [ex_rfont] (str ''a<'')) Map.empty =
       (([raster_costume (toy_digest 7) (str ''sans-replaceable''),
          raster_costume (toy_digest 7) (str ''sans-a''),
          raster_costume (toy_digest 7) (str ''sans-special-less-than-sign'')], None), dir')"
    by blast
  from toy_vector_run obtain s1 s2 s3 dir'' where
    v: "pull (vector_generate_glyphs toy_ext [ex_vfont] (str ''a<'')) Map.empty =
       (([vector_costume (hexdigest toy_ext s1) (str ''serif-replaceable''),
          vector_costume (hexdigest toy_ext s2) (str ''serif-a''),
          vector_costume (hexdigest toy_ext s3) (str ''serif-special-less-than-sign'')], None),
        dir'')"
    by blast
  have c: "str ''a<'' = [97, 60]" by (simp add: str_def)
  have j: "str ''sans'' @ str ''-replaceable'' = str ''sans-replaceable''"
    "str ''serif'' @ str ''-replaceable'' = str ''serif-replaceable''"
    by (simp_all add: str_def)
  from glyph_stream_order [OF r v]
  have t: "map (\<lambda>d. getitem d (str ''name''))
        [raster_costume (toy_digest 7) (str ''sans-replaceable''),
         raster_costume (toy_digest 7) (str ''sans-a''),
         raster_costume (toy_digest 7) (str ''sans-special-less-than-sign'')] =
       [Inr (JStr (str ''sans-replaceable'')), Inr (JStr (str ''sans-a'')),
        Inr (JStr (str ''sans-special-less-than-sign''))]"
    "map (\<lambda>d. getitem d (str ''name''))
        [vector_costume (hexdigest toy_ext s1) (str ''serif-replaceable''),
         vector_costume (hexdigest toy_ext s2) (str ''serif-a''),
         vector_costume (hexdigest toy_ext s3) (str ''serif-special-less-than-sign'')] =
       [Inr (JStr (str ''serif-replaceable'')), Inr (JStr (str ''serif-a'')),
        Inr (JStr (str ''serif-special-less-than-sign''))]"
    "getitem (raster_costume (toy_digest 7) (str ''sans-replaceable'')) (str ''name'') =
       Inr (JStr (str ''sans-replaceable''))"
    "getitem (vector_costume (hexdigest toy_ext s1) (str ''serif-replaceable'')) (str ''name'') =
       Inr (JStr (str ''serif-replaceable''))"
    by (simp_all add: c j ex_rfont_def ex_vfont_def toy_names name_field_def)
  show ?thesis
    by (rule exI [of _ s1], rule exI [of _ s2], rule exI [of _ s3], rule exI [of _ dir'],
        rule exI [of _ dir''], intro conjI r v t)
qed

section \<open>Properties of the descriptors\<close>

text \<open>
  C6: for the font at every position of the configured list, the first step of its
  group renders the fallback glyph, and the descriptor it yields is the first of the
  group. In raster mode the step calls the generator with the replacement font and the
  label of U+FFFD, so the descriptor is that of the image \<open>convert\<close> makes with the
  replacement font as its \<open>-font\<close> argument, whatever the file of the font; in vector
  mode the step calls the generator with the family name of the font itself and U+FFFD,
  so the descriptor is that of the document \<open>svg_letter\<close> makes for them. A stream that
  raises nothing yields the whole list, with the fallback of every font in its place;
  and it raises nothing when the renderer succeeds, no digest is \<open>tmp\<close> and every
  character has a name (raster), or when the font names and the characters can be
  encoded and every character has a name (vector).
\<close>

theorem fallback_glyph:
  assumes "pull (raster_generate_glyphs ext rfonts rchars) rdir = ((ds, r), dir')"
    and "pull (vector_generate_glyphs ext vfonts vchars) vdir = ((es, q), dir'')"
  shows \<open>(\<forall>i<length rfonts. i * (1 + length rchars) < length ds \<longrightarrow>
            (\<exists>png. convert ext (convert_argv replacement_font (str ''label:'' @ [65533])) = Some png \<and>
                   ds ! (i * (1 + length rchars)) =
                     raster_costume (hexdigest ext png) (rid (rfonts ! i) @ str ''-replaceable''))) \<and>
         convert_argv replacement_font (str ''label:'' @ [65533]) ! 1 = str ''-font'' \<and>
         convert_argv replacement_font (str ''label:'' @ [65533]) ! 2 = replacement_font \<and>
         convert_argv replacement_font (str ''label:'' @ [65533]) ! 9 = str ''label:'' @ [65533] \<and>
         (\<forall>i<length vfonts. i * (1 + length vchars) < length es \<longrightarrow>
            (\<exists>svg. utf8_encode (svg_letter [65533] (fontname (vfonts ! i))) = Some svg \<and>
                   es ! (i * (1 + length vchars)) =
                     vector_costume (hexdigest ext svg) (vid (vfonts ! i) @ str ''-replaceable''))) \<and>
         (\<exists>pre post. \<forall>font. svg_letter [65533] font =
            pre @ str ''font-family="'' @ font @
            str ''" font-weight="normal" text-anchor="middle" style="mix-blend-mode: normal">'' @
            [65533] @ str ''</text>'' @ post) \<and>
         length (raster_generate_glyphs ext rfonts rchars) = length rfonts * (1 + length rchars) \<and>
         (\<forall>i<length rfonts.
            raster_generate_glyphs ext rfonts rchars ! (i * (1 + length rchars)) =
              raster_generate_glyph ext replacement_font (rid (rfonts ! i) @ str ''-replaceable'')
                (str ''label:'' @ [65533])) \<and>
         (r = None \<longrightarrow>
            length ds = length rfonts * (1 + length rchars) \<and>
            (\<forall>i<length rfonts.
               \<exists>png. convert ext (convert_argv replacement_font (str ''label:'' @ [65533])) = Some png \<and>
                     ds ! (i * (1 + length rchars)) =
                       raster_costume (hexdigest ext png) (rid (rfonts ! i) @ str ''-replaceable''))) \<and>
         ((\<forall>argv. convert ext argv \<noteq> None) \<and> (\<forall>b. hexdigest ext b \<noteq> str ''tmp'') \<and>
          (\<forall>f\<in>set rfonts. \<forall>c\<in>set rchars. \<exists>n. name_for (ucd ext) (rid f) [c] = Inr n) \<longrightarrow>
            r = None \<and> length ds = length rfonts * (1 + length rchars) \<and>
            (\<forall>i<length rfonts.
               \<exists>png. convert ext (convert_argv replacement_font (str ''label:'' @ [65533])) = Some png \<and>
                     ds ! (i * (1 + length rchars)) =
                       raster_costume (hexdigest ext png) (rid (rfonts ! i) @ str ''-replaceable''))) \<and>
         length (vector_generate_glyphs ext vfonts vchars) = length vfonts * (1 + length vchars) \<and>
         (\<forall>i<length vfonts.
            vector_generate_glyphs ext vfonts vchars ! (i * (1 + length vchars)) =
              vector_generate_glyph ext (fontname (vfonts ! i))
                (vid (vfonts ! i) @ str ''-replaceable'') [65533]) \<and>
         (q = None \<longrightarrow>
            length es = length vfonts * (1 + length vchars) \<and>
            (\<forall>i<length vfonts.
               \<exists>svg. utf8_encode (svg_letter [65533] (fontname (vfonts ! i))) = Some svg \<and>
                     es ! (i * (1 + length vchars)) =
                       vector_costume (hexdigest ext svg) (vid (vfonts ! i) @ str ''-replaceable''))) \<and>
         ((\<forall>f\<in>set vfonts. utf8_encode (fontname f) \<noteq> None) \<and> utf8_encode vchars \<noteq> None \<and>
          (\<forall>f\<in>set vfonts. \<forall>c\<in>set vchars. \<exists>n. name_for (ucd ext) (vid f) [c] = Inr n) \<longrightarrow>
            q = None \<and> length es = length vfonts * (1 + length vchars) \<and>
            (\<forall>i<length vfonts.
               \<exists>svg. utf8_encode (svg_letter [65533] (fontname (vfonts ! i))) = Some svg \<and>
                     es ! (i * (1 + length vchars)) =
                       vector_costume (hexdigest ext svg) (vid (vfonts ! i) @ str ''-replaceable'')))\<close>
proof -
  from svg_letter_shape obtain pre post where
    \<open>\<forall>font c. svg_letter [c] font =
      pre @ str ''font-family="'' @ font @
      str ''" font-weight="normal" text-anchor="middle" style="mix-blend-mode: normal">'' @
      (if c = 38 then str ''&amp;'' else if c = 60 then str ''&lt;''
       else if c = 62 then str ''&gt;'' else [c]) @
      str ''</text>'' @ post\<close>
    by blast
  then have \<open>\<forall>font. svg_letter [65533] font =
            pre @ str ''font-family="'' @ font @
            str ''" font-weight="normal" text-anchor="middle" style="mix-blend-mode: normal">'' @
            [65533] @ str ''</text>'' @ post\<close>
    by simp
  then have s: \<open>\<exists>pre post. \<forall>font. svg_letter [65533] font =
            pre @ str ''font-family="'' @ font @
            str ''" font-weight="normal" text-anchor="middle" style="mix-blend-mode: normal">'' @
            [65533] @ str ''</text>'' @ post\<close>
    by blast
  have a1: "convert_argv replacement_font (str ''label:'' @ [65533]) ! 1 = str ''-font''"
    and a2: "convert_argv replacement_font (str ''label:'' @ [65533]) ! 2 = replacement_font"
    and a9: "convert_argv replacement_font (str ''label:'' @ [65533]) ! 9 = str ''label:'' @ [65533]"
    by (simp_all add: convert_argv_def)
  have rg: "\<forall>i<length rfonts. i * (1 + length rchars) < length ds \<longrightarrow>
            (\<exists>png. convert ext (convert_argv replacement_font (str ''label:'' @ [65533])) = Some png \<and>
                   ds ! (i * (1 + length rchars)) =
                     raster_costume (hexdigest ext png) (rid (rfonts ! i) @ str ''-replaceable''))"
    using raster_stream_fallback [OF assms(1)] by blast
  have vg: "\<forall>i<length vfonts. i * (1 + length vchars) < length es \<longrightarrow>
            (\<exists>svg. utf8_encode (svg_letter [65533] (fontname (vfonts ! i))) = Some svg \<and>
                   es ! (i * (1 + length vchars)) =
                     vector_costume (hexdigest ext svg) (vid (vfonts ! i) @ str ''-replaceable''))"
    using vector_stream_fallback [OF assms(2)] by blast
  have rl: "length (raster_generate_glyphs ext rfonts rchars) = length rfonts * (1 + length rchars)"
    by (induction rfonts) (simp_all add: raster_generate_glyphs_def)
  have vl: "length (vector_generate_glyphs ext vfonts vchars) = length vfonts * (1 + length vchars)"
    by (induction vfonts) (simp_all add: vector_generate_glyphs_def)
  have rs: "\<forall>i<length rfonts.
            raster_generate_glyphs ext rfonts rchars ! (i * (1 + length rchars)) =
              raster_generate_glyph ext replacement_font (rid (rfonts ! i) @ str ''-replaceable'')
                (str ''label:'' @ [65533])"
  proof (intro allI impI)
    fix i assume i: "i < length rfonts"
    show "raster_generate_glyphs ext rfonts rchars ! (i * (1 + length rchars)) =
              raster_generate_glyph ext replacement_font (rid (rfonts ! i) @ str ''-replaceable'')
                (str ''label:'' @ [65533])"
      unfolding raster_generate_glyphs_def replacement_character_def
      by (rule plan_fallback [OF i])
  qed
  have vs: "\<forall>i<length vfonts.
            vector_generate_glyphs ext vfonts vchars ! (i * (1 + length vchars)) =
              vector_generate_glyph ext (fontname (vfonts ! i))
                (vid (vfonts ! i) @ str ''-replaceable'') [65533]"
  proof (intro allI impI)
    fix i assume i: "i < length vfonts"
    show "vector_generate_glyphs ext vfonts vchars ! (i * (1 + length vchars)) =
              vector_generate_glyph ext (fontname (vfonts ! i))
                (vid (vfonts ! i) @ str ''-replaceable'') [65533]"
      unfolding vector_generate_glyphs_def
      by (rule plan_fallback [OF i])
  qed
  have rf: "length ds = length rfonts * (1 + length rchars) \<and>
            (\<forall>i<length rfonts.
               \<exists>png. convert ext (convert_argv replacement_font (str ''label:'' @ [65533])) = Some png \<and>
                     ds ! (i * (1 + length rchars)) =
                       raster_costume (hexdigest ext png) (rid (rfonts ! i) @ str ''-replaceable''))"
    if "r = None"
  proof -
    from raster_stream_order(2) [OF assms(1)] that
    have l: "length ds = length rfonts * (1 + length rchars)" by simp
    have "i * (1 + length rchars) < length rfonts * (1 + length rchars)"
      if "i < length rfonts" for i
      using that by (intro mult_less_mono1) simp_all
    with l have "i * (1 + length rchars) < length ds" if "i < length rfonts" for i
      using that by simp
    with rg l show ?thesis by blast
  qed
  have vf: "length es = length vfonts * (1 + length vchars) \<and>
            (\<forall>i<length vfonts.
               \<exists>svg. utf8_encode (svg_letter [65533] (fontname (vfonts ! i))) = Some svg \<and>
                     es ! (i * (1 + length vchars)) =
                       vector_costume (hexdigest ext svg) (vid (vfonts ! i) @ str ''-replaceable''))"
    if "q = None"
  proof -
    from vector_stream_order(2) [OF assms(2)] that
    have l: "length es = length vfonts * (1 + length vchars)" by simp
    have "i * (1 + length vchars) < length vfonts * (1 + length vchars)"
      if "i < length vfonts" for i
      using that by (intro mult_less_mono1) simp_all
    with l have "i * (1 + length vchars) < length es" if "i < length vfonts" for i
      using that by simp
    with vg l show ?thesis by blast
  qed
  have rn: "r = None"
    if "(\<forall>argv. convert ext argv \<noteq> None) \<and> (\<forall>b. hexdigest ext b \<noteq> str ''tmp'') \<and>
          (\<forall>f\<in>set rfonts. \<forall>c\<in>set rchars. \<exists>n. name_for (ucd ext) (rid f) [c] = Inr n)"
  proof -
    from that have "snd (fst (pull (raster_generate_glyphs ext rfonts rchars) rdir)) = None"
      by (intro raster_stream_succeeds) simp_all
    with assms(1) show ?thesis by simp
  qed
  have vn: "q = None"
    if "(\<forall>f\<in>set vfonts. utf8_encode (fontname f) \<noteq> None) \<and> utf8_encode vchars \<noteq> None \<and>
          (\<forall>f\<in>set vfonts. \<forall>c\<in>set vchars. \<exists>n. name_for (ucd ext) (vid f) [c] = Inr n)"
  proof -
    from that have "snd (fst (pull (vector_generate_glyphs ext vfonts vchars) vdir)) = None"
      by (intro vector_stream_succeeds) simp_all
    with assms(2) show ?thesis by simp
  qed
  have rc: "(\<forall>argv. convert ext argv \<noteq> None) \<and> (\<forall>b. hexdigest ext b \<noteq> str ''tmp'') \<and>
          (\<forall>f\<in>set rfonts. \<forall>c\<in>set rchars. \<exists>n. name_for (ucd ext) (rid f) [c] = Inr n) \<longrightarrow>
            r = None \<and> length ds = length rfonts * (1 + length rchars) \<and>
            (\<forall>i<length rfonts.
               \<exists>png. convert ext (convert_argv replacement_font (str ''label:'' @ [65533])) = Some png \<and>
                     ds ! (i * (1 + length rchars)) =
                       raster_costume (hexdigest ext png) (rid (rfonts ! i) @ str ''-replaceable''))"
  proof
    assume h: "(\<forall>argv. convert ext argv \<noteq> None) \<and> (\<forall>b. hexdigest ext b \<noteq> str ''tmp'') \<and>
          (\<forall>f\<in>set rfonts. \<forall>c\<in>set rchars. \<exists>n. name_for (ucd ext) (rid f) [c] = Inr n)"
    from rn [OF h] rf [OF rn [OF h]]
    show "r = None \<and> length ds = length rfonts * (1 + length rchars) \<and>
            (\<forall>i<length rfonts.
               \<exists>png. convert ext (convert_argv replacement_font (str ''label:'' @ [65533])) = Some png \<and>
                     ds ! (i * (1 + length rchars)) =
                       raster_costume (hexdigest ext png) (rid (rfonts ! i) @ str ''-replaceable''))"
      by (intro conjI) simp_all
  qed
  have vc: "(\<forall>f\<in>set vfonts. utf8_encode (fontname f) \<noteq> None) \<and> utf8_encode vchars \<noteq> None \<and>
          (\<forall>f\<in>set vfonts. \<forall>c\<in>set vchars. \<exists>n. name_for (ucd ext) (vid f) [c] = Inr n) \<longrightarrow>
            q = None \<and> length es = length vfonts * (1 + length vchars) \<and>
            (\<forall>i<length vfonts.
               \<exists>svg. utf8_encode (svg_letter [65533] (fontname (vfonts ! i))) = Some svg \<and>
                     es ! (i * (1 + length vchars)) =
                       vector_costume (hexdigest ext svg) (vid (vfonts ! i) @ str ''-replaceable''))"
  proof
    assume h: "(\<forall>f\<in>set vfonts. utf8_encode (fontname f) \<noteq> None) \<and> utf8_encode vchars \<noteq> None \<and>
          (\<forall>f\<in>set vfonts. \<forall>c\<in>set vchars. \<exists>n. name_for (ucd ext) (vid f) [c] = Inr n)"
    from vn [OF h] vf [OF vn [OF h]]
    show "q = None \<and> length es = length vfonts * (1 + length vchars) \<and>
            (\<forall>i<length vfonts.
               \<exists>svg. utf8_encode (svg_letter [65533] (fontname (vfonts ! i))) = Some svg \<and>
                     es ! (i * (1 + length vchars)) =
                       vector_costume (hexdigest ext svg) (vid (vfonts ! i) @ str ''-replaceable''))"
      by (intro conjI) simp_all
  qed
  from rf have rf': "r = None \<longrightarrow>
            length ds = length rfonts * (1 + length rchars) \<and>
            (\<forall>i<length rfonts.
               \<exists>png. convert ext (convert_argv replacement_font (str ''label:'' @ [65533])) = Some png \<and>
                     ds ! (i * (1 + length rchars)) =
                       raster_costume (hexdigest ext png) (rid (rfonts ! i) @ str ''-replaceable''))"
    by (rule impI)
  from vf have vf': "q = None \<longrightarrow>
            length es = length vfonts * (1 + length vchars) \<and>
            (\<forall>i<length vfonts.
               \<exists>svg. utf8_encode (svg_letter [65533] (fontname (vfonts ! i))) = Some svg \<and>
                     es ! (i * (1 + length vchars)) =
                       vector_costume (hexdigest ext svg) (vid (vfonts ! i) @ str ''-replaceable''))"
    by (rule impI)
  show ?thesis
    by (rule conjI [OF rg], rule conjI [OF a1], rule conjI [OF a2], rule conjI [OF a9],
        rule conjI [OF vg], rule conjI [OF s], rule conjI [OF rl], rule conjI [OF rs],
        rule conjI [OF rf'], rule conjI [OF rc], rule conjI [OF vl], rule conjI [OF vs],
        rule conjI [OF vf'], rule vc)
qed

lemma toy_succeeds:
  "\<forall>argv. convert toy_ext argv \<noteq> None"
  "\<forall>b. hexdigest toy_ext b \<noteq> str ''tmp''"
  "\<forall>f\<in>set raster_fonts. \<forall>c\<in>set characters. \<exists>n. name_for (ucd toy_ext) (rid f) [c] = Inr n"
  "\<forall>f\<in>set vector_fonts. \<forall>c\<in>set characters. \<exists>n. name_for (ucd toy_ext) (vid f) [c] = Inr n"
  "\<forall>f\<in>set vector_fonts. utf8_encode (fontname f) \<noteq> None"
  "utf8_encode characters \<noteq> None"
proof -
  show "\<forall>argv. convert toy_ext argv \<noteq> None" by (simp add: toy_ext_def)
  have "length (hexdigest toy_ext b) \<noteq> length (str ''tmp'')" for b
    by (simp add: toy_ext_def toy_digest_def str_def)
  then show "\<forall>b. hexdigest toy_ext b \<noteq> str ''tmp''" by metis
  have u: "ucd toy_ext = ucd_excerpt" by (simp add: toy_ext_def)
  show "\<forall>f\<in>set raster_fonts. \<forall>c\<in>set characters. \<exists>n. name_for (ucd toy_ext) (rid f) [c] = Inr n"
    unfolding u using configured_characters_named by blast
  show "\<forall>f\<in>set vector_fonts. \<forall>c\<in>set characters. \<exists>n. name_for (ucd toy_ext) (vid f) [c] = Inr n"
    unfolding u using configured_characters_named by blast
  show "\<forall>f\<in>set vector_fonts. utf8_encode (fontname f) \<noteq> None"
    by (simp add: vector_fonts_def utf8_encode_str del: not_None_eq)
  show "utf8_encode characters \<noteq> None"
    by (simp add: characters_def utf8_encode_append utf8_encode_str utf8_cp_def del: not_None_eq)
qed

theorem fallback_glyph_witness:
  "\<exists>ds r dir' es q dir''.
     pull (raster_generate_glyphs toy_ext raster_fonts characters) Map.empty = ((ds, r), dir') \<and>
     pull (vector_generate_glyphs toy_ext vector_fonts characters) Map.empty = ((es, q), dir'') \<and>
     r = None \<and> length ds = 4 * (1 + length characters) \<and>
     (\<exists>png. convert toy_ext (convert_argv replacement_font (str ''label:'' @ [65533])) = Some png \<and>
        ds ! 0 = raster_costume (hexdigest toy_ext png) (str ''sans-replaceable'') \<and>
        ds ! (1 + length characters) =
          raster_costume (hexdigest toy_ext png) (str ''mono-replaceable'') \<and>
        ds ! (3 * (1 + length characters)) =
          raster_costume (hexdigest toy_ext png) (str ''scrawl-replaceable'')) \<and>
     raster_generate_glyphs toy_ext raster_fonts characters ! (1 + length characters) =
       raster_generate_glyph toy_ext replacement_font (str ''mono-replaceable'')
         (str ''label:'' @ [65533]) \<and>
     q = None \<and> length es = 6 * (1 + length characters) \<and>
     (\<exists>svg. utf8_encode (svg_letter [65533] (str ''Sans Serif'')) = Some svg \<and>
        es ! (1 + length characters) =
          vector_costume (hexdigest toy_ext svg) (str ''sans-serif-replaceable'')) \<and>
     (\<exists>svg. utf8_encode (svg_letter [65533] (str ''Pixel'')) = Some svg \<and>
        es ! (5 * (1 + length characters)) =
          vector_costume (hexdigest toy_ext svg) (str ''pixel-replaceable'')) \<and>
     vector_generate_glyphs toy_ext vector_fonts characters ! (5 * (1 + length characters)) =
       vector_generate_glyph toy_ext (str ''Pixel'') (str ''pixel-replaceable'') [65533]"
proof -
  obtain ds r dir' where
    p: "pull (raster_generate_glyphs toy_ext raster_fonts characters) Map.empty = ((ds, r), dir')"
    by (metis prod.exhaust)
  obtain es q dir'' where
    p': "pull (vector_generate_glyphs toy_ext vector_fonts characters) Map.empty = ((es, q), dir'')"
    by (metis prod.exhaust)
  note t = fallback_glyph [OF p p']
  have j: "str ''sans'' @ str ''-replaceable'' = str ''sans-replaceable''"
    "str ''mono'' @ str ''-replaceable'' = str ''mono-replaceable''"
    "str ''scrawl'' @ str ''-replaceable'' = str ''scrawl-replaceable''"
    "str ''sans-serif'' @ str ''-replaceable'' = str ''sans-serif-replaceable''"
    "str ''pixel'' @ str ''-replaceable'' = str ''pixel-replaceable''"
    by (simp_all add: str_def)
  have lr: "length raster_fonts = 4" "rid (raster_fonts ! 0) = str ''sans''"
    "rid (raster_fonts ! 1) = str ''mono''" "rid (raster_fonts ! Suc 0) = str ''mono''"
    "rid (raster_fonts ! 3) = str ''scrawl''"
    by (simp_all add: raster_fonts_def)
  have lv: "length vector_fonts = 6" "vid (vector_fonts ! 1) = str ''sans-serif''"
    "fontname (vector_fonts ! 1) = str ''Sans Serif''"
    "vid (vector_fonts ! Suc 0) = str ''sans-serif''"
    "fontname (vector_fonts ! Suc 0) = str ''Sans Serif''"
    "vid (vector_fonts ! 5) = str ''pixel''" "fontname (vector_fonts ! 5) = str ''Pixel''"
    by (simp_all add: vector_fonts_def)
  from t have "(\<forall>argv. convert toy_ext argv \<noteq> None) \<and> (\<forall>b. hexdigest toy_ext b \<noteq> str ''tmp'') \<and>
          (\<forall>f\<in>set raster_fonts. \<forall>c\<in>set characters.
             \<exists>n. name_for (ucd toy_ext) (rid f) [c] = Inr n) \<longrightarrow>
            r = None \<and> length ds = length raster_fonts * (1 + length characters) \<and>
            (\<forall>i<length raster_fonts.
               \<exists>png. convert toy_ext (convert_argv replacement_font (str ''label:'' @ [65533])) = Some png \<and>
                     ds ! (i * (1 + length characters)) =
                       raster_costume (hexdigest toy_ext png)
                         (rid (raster_fonts ! i) @ str ''-replaceable''))"
    by (elim conjE)
  with toy_succeeds(1,2,3)
  have rc: "r = None \<and> length ds = length raster_fonts * (1 + length characters) \<and>
            (\<forall>i<length raster_fonts.
               \<exists>png. convert toy_ext (convert_argv replacement_font (str ''label:'' @ [65533])) = Some png \<and>
                     ds ! (i * (1 + length characters)) =
                       raster_costume (hexdigest toy_ext png)
                         (rid (raster_fonts ! i) @ str ''-replaceable''))"
    by blast
  from t have "(\<forall>f\<in>set vector_fonts. utf8_encode (fontname f) \<noteq> None) \<and>
          utf8_encode characters \<noteq> None \<and>
          (\<forall>f\<in>set vector_fonts. \<forall>c\<in>set characters.
             \<exists>n. name_for (ucd toy_ext) (vid f) [c] = Inr n) \<longrightarrow>
            q = None \<and> length es = length vector_fonts * (1 + length characters) \<and>
            (\<forall>i<length vector_fonts.
               \<exists>svg. utf8_encode (svg_letter [65533] (fontname (vector_fonts ! i))) = Some svg \<and>
                     es ! (i * (1 + length characters)) =
                       vector_costume (hexdigest toy_ext svg)
                         (vid (vector_fonts ! i) @ str ''-replaceable''))"
    by (elim conjE)
  with toy_succeeds(4,5,6)
  have vc: "q = None \<and> length es = length vector_fonts * (1 + length characters) \<and>
            (\<forall>i<length vector_fonts.
               \<exists>svg. utf8_encode (svg_letter [65533] (fontname (vector_fonts ! i))) = Some svg \<and>
                     es ! (i * (1 + length characters)) =
                       vector_costume (hexdigest toy_ext svg)
                         (vid (vector_fonts ! i) @ str ''-replaceable''))"
    by blast
  from t have rs: "\<forall>i<length raster_fonts.
            raster_generate_glyphs toy_ext raster_fonts characters ! (i * (1 + length characters)) =
              raster_generate_glyph toy_ext replacement_font
                (rid (raster_fonts ! i) @ str ''-replaceable'') (str ''label:'' @ [65533])"
    by blast
  from t have vs: "\<forall>i<length vector_fonts.
            vector_generate_glyphs toy_ext vector_fonts characters ! (i * (1 + length characters)) =
              vector_generate_glyph toy_ext (fontname (vector_fonts ! i))
                (vid (vector_fonts ! i) @ str ''-replaceable'') [65533]"
    by blast
  from rc have r1: "r = None" and r2: "length ds = 4 * (1 + length characters)"
    by (simp_all add: lr)
  from rc have ra: "\<exists>png. convert toy_ext (convert_argv replacement_font (str ''label:'' @ [65533])) = Some png \<and>
                     ds ! (i * (1 + length characters)) =
                       raster_costume (hexdigest toy_ext png)
                         (rid (raster_fonts ! i) @ str ''-replaceable'')"
    if "i < 4" for i
    using that by (simp add: lr(1))
  have n: "(0::nat) < 4" "(1::nat) < 4" "(3::nat) < 4" "(1::nat) < 6" "(5::nat) < 6"
    by simp_all
  from ra [OF n(1)] obtain png where
    png: "convert toy_ext (convert_argv replacement_font (str ''label:'' @ [65533])) = Some png"
    and r3': "ds ! (0 * (1 + length characters)) =
      raster_costume (hexdigest toy_ext png) (rid (raster_fonts ! 0) @ str ''-replaceable'')"
    by blast
  from r3' have r3: "ds ! 0 = raster_costume (hexdigest toy_ext png) (str ''sans-replaceable'')"
    by (simp add: lr j)
  from ra [OF n(2)] png
  have r4: "ds ! (1 + length characters) =
          raster_costume (hexdigest toy_ext png) (str ''mono-replaceable'')"
    by (simp add: lr j)
  from ra [OF n(3)] png
  have r5: "ds ! (3 * (1 + length characters)) =
          raster_costume (hexdigest toy_ext png) (str ''scrawl-replaceable'')"
    by (simp add: lr j)
  from r3 r4 r5 png
  have r6: "\<exists>png. convert toy_ext (convert_argv replacement_font (str ''label:'' @ [65533])) = Some png \<and>
        ds ! 0 = raster_costume (hexdigest toy_ext png) (str ''sans-replaceable'') \<and>
        ds ! (1 + length characters) =
          raster_costume (hexdigest toy_ext png) (str ''mono-replaceable'') \<and>
        ds ! (3 * (1 + length characters)) =
          raster_costume (hexdigest toy_ext png) (str ''scrawl-replaceable'')"
    by (intro exI [of _ png] conjI)
  from rs have "(1::nat) < length raster_fonts \<longrightarrow>
       raster_generate_glyphs toy_ext raster_fonts characters ! (1 * (1 + length characters)) =
       raster_generate_glyph toy_ext replacement_font
         (rid (raster_fonts ! 1) @ str ''-replaceable'') (str ''label:'' @ [65533])"
    by (rule spec)
  then have r7: "raster_generate_glyphs toy_ext raster_fonts characters ! (1 + length characters) =
       raster_generate_glyph toy_ext replacement_font (str ''mono-replaceable'')
         (str ''label:'' @ [65533])"
    by (simp add: lr j)
  from vc have v1: "q = None" and v2: "length es = 6 * (1 + length characters)"
    by (simp_all add: lv)
  from vc have va: "\<exists>svg. utf8_encode (svg_letter [65533] (fontname (vector_fonts ! i))) = Some svg \<and>
                     es ! (i * (1 + length characters)) =
                       vector_costume (hexdigest toy_ext svg)
                         (vid (vector_fonts ! i) @ str ''-replaceable'')"
    if "i < 6" for i
    using that by (simp add: lv(1))
  from va [OF n(4)]
  have v3: "\<exists>svg. utf8_encode (svg_letter [65533] (str ''Sans Serif'')) = Some svg \<and>
        es ! (1 + length characters) =
          vector_costume (hexdigest toy_ext svg) (str ''sans-serif-replaceable'')"
    by (simp add: lv j)
  from va [OF n(5)]
  have v4: "\<exists>svg. utf8_encode (svg_letter [65533] (str ''Pixel'')) = Some svg \<and>
        es ! (5 * (1 + length characters)) =
          vector_costume (hexdigest toy_ext svg) (str ''pixel-replaceable'')"
    by (simp add: lv j)
  from vs have "(5::nat) < length vector_fonts \<longrightarrow>
       vector_generate_glyphs toy_ext vector_fonts characters ! (5 * (1 + length characters)) =
       vector_generate_glyph toy_ext (fontname (vector_fonts ! 5))
         (vid (vector_fonts ! 5) @ str ''-replaceable'') [65533]"
    by (rule spec)
  then have v5: "vector_generate_glyphs toy_ext vector_fonts characters ! (5 * (1 + length characters)) =
       vector_generate_glyph toy_ext (str ''Pixel'') (str ''pixel-replaceable'') [65533]"
    by (simp add: lv j)
  show ?thesis
    by (rule exI [of _ ds], rule exI [of _ r], rule exI [of _ dir'], rule exI [of _ es],
        rule exI [of _ q], rule exI [of _ dir''], intro conjI p p' r1 r2 r6 r7 v1 v2 v3 v4 v5)
qed

lemma staged_md5ext:
  assumes "staged ext sfx dir d" and "staged ext sfx dir d'"
    and "getitem d (str ''assetId'') = getitem d' (str ''assetId'')"
  shows "getitem d (str ''md5ext'') = getitem d' (str ''md5ext'')"
proof -
  from assms(1) obtain h where h: "getitem d (str ''assetId'') = Inr (JStr h)"
    "getitem d (str ''md5ext'') = Inr (JStr (h @ sfx))"
    unfolding staged_iff by blast
  from assms(2) obtain h' where h': "getitem d' (str ''assetId'') = Inr (JStr h')"
    "getitem d' (str ''md5ext'') = Inr (JStr (h' @ sfx))"
    unfolding staged_iff by blast
  from h(1) h'(1) assms(3) have "h = h'" by simp
  with h(2) h'(2) show ?thesis by simp
qed

lemma staged_hex:
  assumes "staged ext sfx dir d" and "\<forall>b. md5_hex (hexdigest ext b)"
  shows "\<exists>h. getitem d (str ''assetId'') = Inr (JStr h) \<and> md5_hex h"
proof -
  from assms(1) obtain h b where h: "getitem d (str ''assetId'') = Inr (JStr h)"
    "hexdigest ext b = h"
    unfolding staged_iff by blast
  from assms(2) h(2) have "md5_hex h" by auto
  with h(1) show ?thesis by simp
qed

text \<open>
  C8: a descriptor the generator returns is staged: its \<open>md5ext\<close> is its \<open>assetId\<close>
  followed by \<open>.png\<close> (raster) or \<open>.svg\<close> (vector), and the file of that name holds bytes
  whose digest is the \<open>assetId\<close>. Every descriptor the stream has yielded is still staged
  in the directory the stream leaves, so two of them with the same \<open>assetId\<close> have the
  same \<open>md5ext\<close> and name one file. The \<open>assetId\<close> is what \<open>hexdigest\<close> returns: thirty-two
  lowercase hexadecimal characters when that is what \<open>hexdigest\<close> produces.
\<close>

theorem digest_addressing:
  assumes "raster_generate_glyph ext rfont rname label rdir0 = (Inr d, rdir1)"
    and "vector_generate_glyph ext vfont vname character vdir0 = (Inr e, vdir1)"
    and "pull (raster_generate_glyphs ext rfonts rchars) rdir = ((ds, r), dir')"
    and "pull (vector_generate_glyphs ext vfonts vchars) vdir = ((es, q), dir'')"
  shows "staged ext (str ''.png'') rdir1 d \<and> staged ext (str ''.svg'') vdir1 e \<and>
         (\<forall>x\<in>set ds. staged ext (str ''.png'') dir' x) \<and>
         (\<forall>x\<in>set es. staged ext (str ''.svg'') dir'' x) \<and>
         (\<forall>x\<in>set ds. \<forall>y\<in>set ds.
            getitem x (str ''assetId'') = getitem y (str ''assetId'') \<longrightarrow>
            getitem x (str ''md5ext'') = getitem y (str ''md5ext'')) \<and>
         (\<forall>x\<in>set es. \<forall>y\<in>set es.
            getitem x (str ''assetId'') = getitem y (str ''assetId'') \<longrightarrow>
            getitem x (str ''md5ext'') = getitem y (str ''md5ext'')) \<and>
         ((\<forall>b. md5_hex (hexdigest ext b)) \<longrightarrow>
            (\<forall>x\<in>set ds \<union> set es. \<exists>h. getitem x (str ''assetId'') = Inr (JStr h) \<and> md5_hex h))"
proof -
  have d: "staged ext (str ''.png'') rdir1 d"
    using raster_step_invariant [OF assms(1)] by simp
  have e: "staged ext (str ''.svg'') vdir1 e"
    using vector_step_invariant [OF assms(2)] by simp
  note rs = raster_stream_staged [OF assms(3)]
  note vs = vector_stream_staged [OF assms(4)]
  have rm: "\<forall>x\<in>set ds. \<forall>y\<in>set ds.
            getitem x (str ''assetId'') = getitem y (str ''assetId'') \<longrightarrow>
            getitem x (str ''md5ext'') = getitem y (str ''md5ext'')"
  proof (intro ballI impI)
    fix x y
    assume "x \<in> set ds" "y \<in> set ds"
      and eq: "getitem x (str ''assetId'') = getitem y (str ''assetId'')"
    with rs have "staged ext (str ''.png'') dir' x" "staged ext (str ''.png'') dir' y"
      by simp_all
    from staged_md5ext [OF this eq]
    show "getitem x (str ''md5ext'') = getitem y (str ''md5ext'')" .
  qed
  have vm: "\<forall>x\<in>set es. \<forall>y\<in>set es.
            getitem x (str ''assetId'') = getitem y (str ''assetId'') \<longrightarrow>
            getitem x (str ''md5ext'') = getitem y (str ''md5ext'')"
  proof (intro ballI impI)
    fix x y
    assume "x \<in> set es" "y \<in> set es"
      and eq: "getitem x (str ''assetId'') = getitem y (str ''assetId'')"
    with vs have "staged ext (str ''.svg'') dir'' x" "staged ext (str ''.svg'') dir'' y"
      by simp_all
    from staged_md5ext [OF this eq]
    show "getitem x (str ''md5ext'') = getitem y (str ''md5ext'')" .
  qed
  have hx: "(\<forall>b. md5_hex (hexdigest ext b)) \<longrightarrow>
      (\<forall>x\<in>set ds \<union> set es. \<exists>h. getitem x (str ''assetId'') = Inr (JStr h) \<and> md5_hex h)"
  proof (intro ballI impI)
    fix x
    assume hex: "\<forall>b. md5_hex (hexdigest ext b)" and "x \<in> set ds \<union> set es"
    then consider "x \<in> set ds" | "x \<in> set es" by blast
    then show "\<exists>h. getitem x (str ''assetId'') = Inr (JStr h) \<and> md5_hex h"
    proof cases
      case 1
      with rs have "staged ext (str ''.png'') dir' x" by simp
      from staged_hex [OF this hex] show ?thesis .
    next
      case 2
      with vs have "staged ext (str ''.svg'') dir'' x" by simp
      from staged_hex [OF this hex] show ?thesis .
    qed
  qed
  show ?thesis
    by (intro conjI d e rs vs rm vm hx)
qed

lemma toy_md5_hex: "md5_hex (hexdigest toy_ext b)"
proof -
  have "length b mod 10 < 10" by simp
  then have "48 + length b mod 10 \<le> 57" by linarith
  then show ?thesis
    by (simp add: toy_ext_def toy_digest_def md5_hex_def str_def)
qed

theorem digest_addressing_witness:
  "\<exists>s0 s1 s2 s3 rdir1 vdir1 dir' dir''.
     raster_generate_glyph toy_ext (str ''S.ttf'') (str ''sans-a'') (str ''label:a'') Map.empty =
       (Inr (raster_costume (toy_digest 7) (str ''sans-a'')), rdir1) \<and>
     vector_generate_glyph toy_ext (str ''Serif'') (str ''serif-a'') (str ''a'') Map.empty =
       (Inr (vector_costume (hexdigest toy_ext s0) (str ''serif-a'')), vdir1) \<and>
     pull (raster_generate_glyphs toy_ext [ex_rfont] (str ''a<'')) Map.empty =
       (([raster_costume (toy_digest 7) (str ''sans-replaceable''),
          raster_costume (toy_digest 7) (str ''sans-a''),
          raster_costume (toy_digest 7) (str ''sans-special-less-than-sign'')], None), dir') \<and>
     pull (vector_generate_glyphs toy_ext [ex_vfont] (str ''a<'')) Map.empty =
       (([vector_costume (hexdigest toy_ext s1) (str ''serif-replaceable''),
          vector_costume (hexdigest toy_ext s2) (str ''serif-a''),
          vector_costume (hexdigest toy_ext s3) (str ''serif-special-less-than-sign'')], None),
        dir'') \<and>
     staged toy_ext (str ''.png'') rdir1 (raster_costume (toy_digest 7) (str ''sans-a'')) \<and>
     staged toy_ext (str ''.svg'') vdir1 (vector_costume (hexdigest toy_ext s0) (str ''serif-a'')) \<and>
     staged toy_ext (str ''.png'') dir' (raster_costume (toy_digest 7) (str ''sans-replaceable'')) \<and>
     staged toy_ext (str ''.png'') dir'
       (raster_costume (toy_digest 7) (str ''sans-special-less-than-sign'')) \<and>
     staged toy_ext (str ''.svg'') dir''
       (vector_costume (hexdigest toy_ext s1) (str ''serif-replaceable'')) \<and>
     getitem (raster_costume (toy_digest 7) (str ''sans-replaceable'')) (str ''md5ext'') =
       getitem (raster_costume (toy_digest 7) (str ''sans-a'')) (str ''md5ext'') \<and>
     (\<exists>h. getitem (raster_costume (toy_digest 7) (str ''sans-replaceable'')) (str ''assetId'') =
            Inr (JStr h) \<and> md5_hex h)"
proof -
  from toy_raster_glyph obtain rdir1 where
    g: "raster_generate_glyph toy_ext (str ''S.ttf'') (str ''sans-a'') (str ''label:a'') Map.empty =
       (Inr (raster_costume (toy_digest 7) (str ''sans-a'')), rdir1)"
    by blast
  from toy_vector_glyph obtain s0 vdir1 where
    h: "vector_generate_glyph toy_ext (str ''Serif'') (str ''serif-a'') (str ''a'') Map.empty =
       (Inr (vector_costume (hexdigest toy_ext s0) (str ''serif-a'')), vdir1)"
    by blast
  from toy_raster_run obtain dir' where
    r: "pull (raster_generate_glyphs toy_ext [ex_rfont] (str ''a<'')) Map.empty =
       (([raster_costume (toy_digest 7) (str ''sans-replaceable''),
          raster_costume (toy_digest 7) (str ''sans-a''),
          raster_costume (toy_digest 7) (str ''sans-special-less-than-sign'')], None), dir')"
    by blast
  from toy_vector_run obtain s1 s2 s3 dir'' where
    v: "pull (vector_generate_glyphs toy_ext [ex_vfont] (str ''a<'')) Map.empty =
       (([vector_costume (hexdigest toy_ext s1) (str ''serif-replaceable''),
          vector_costume (hexdigest toy_ext s2) (str ''serif-a''),
          vector_costume (hexdigest toy_ext s3) (str ''serif-special-less-than-sign'')], None),
        dir'')"
    by blast
  note t = digest_addressing [OF g h r v]
  have t1: "staged toy_ext (str ''.png'') rdir1 (raster_costume (toy_digest 7) (str ''sans-a''))"
    "staged toy_ext (str ''.svg'') vdir1 (vector_costume (hexdigest toy_ext s0) (str ''serif-a''))"
    using t by blast+
  have t2: "staged toy_ext (str ''.png'') dir' (raster_costume (toy_digest 7) (str ''sans-replaceable''))"
    "staged toy_ext (str ''.png'') dir'
       (raster_costume (toy_digest 7) (str ''sans-special-less-than-sign''))"
    "staged toy_ext (str ''.svg'') dir''
       (vector_costume (hexdigest toy_ext s1) (str ''serif-replaceable''))"
    using t by simp_all
  have t3: "getitem (raster_costume (toy_digest 7) (str ''sans-replaceable'')) (str ''md5ext'') =
       getitem (raster_costume (toy_digest 7) (str ''sans-a'')) (str ''md5ext'')"
    using t by (simp add: raster_costume_fields)
  have t4: "\<exists>h. getitem (raster_costume (toy_digest 7) (str ''sans-replaceable'')) (str ''assetId'') =
            Inr (JStr h) \<and> md5_hex h"
    using t toy_md5_hex by simp
  show ?thesis
    by (rule exI [of _ s0], rule exI [of _ s1], rule exI [of _ s2], rule exI [of _ s3],
        rule exI [of _ rdir1], rule exI [of _ vdir1], rule exI [of _ dir'],
        rule exI [of _ dir''], intro conjI g h r v t1 t2 t3 t4)
qed

text \<open>
  C9: a raster descriptor has the rotation centre (120, 160), half of the canvas of
  240 by 320, and bitmapResolution 2; a vector descriptor has the rotation centre
  (20, 25), half of the canvas of 40 by 50, and no field bitmapResolution. This holds for
  what the glyph generator returns and so for every descriptor the stream yields.
\<close>

theorem costume_geometry:
  assumes "raster_generate_glyph ext rfont rname label rdir0 = (Inr d, rdir1)"
    and "vector_generate_glyph ext vfont vname character vdir0 = (Inr e, vdir1)"
    and "pull (raster_generate_glyphs ext rfonts rchars) rdir = ((ds, r), dir')"
    and "pull (vector_generate_glyphs ext vfonts vchars) vdir = ((es, q), dir'')"
  shows "getitem d (str ''rotationCenterX'') = Inr (JInt 120) \<and>
         getitem d (str ''rotationCenterY'') = Inr (JInt 160) \<and>
         getitem d (str ''bitmapResolution'') = Inr (JInt 2) \<and>
         (\<forall>x\<in>set ds.
            getitem x (str ''rotationCenterX'') = Inr (JInt 120) \<and>
            getitem x (str ''rotationCenterY'') = Inr (JInt 160) \<and>
            getitem x (str ''bitmapResolution'') = Inr (JInt 2)) \<and>
         getitem e (str ''rotationCenterX'') = Inr (JInt 20) \<and>
         getitem e (str ''rotationCenterY'') = Inr (JInt 25) \<and>
         getitem e (str ''bitmapResolution'') = Inl KeyError \<and>
         (\<forall>x\<in>set es.
            getitem x (str ''rotationCenterX'') = Inr (JInt 20) \<and>
            getitem x (str ''rotationCenterY'') = Inr (JInt 25) \<and>
            getitem x (str ''bitmapResolution'') = Inl KeyError) \<and>
         raster_width = 240 \<and> raster_height = 320 \<and>
         2 * 120 = raster_width \<and> 2 * 160 = raster_height \<and>
         vector_width = 40 \<and> vector_height = 50 \<and>
         2 * 20 = vector_width \<and> 2 * 25 = vector_height"
proof -
  let ?R = "\<lambda>x. getitem x (str ''rotationCenterX'') = Inr (JInt 120) \<and>
      getitem x (str ''rotationCenterY'') = Inr (JInt 160) \<and>
      getitem x (str ''bitmapResolution'') = Inr (JInt 2)"
  let ?V = "\<lambda>x. getitem x (str ''rotationCenterX'') = Inr (JInt 20) \<and>
      getitem x (str ''rotationCenterY'') = Inr (JInt 25) \<and>
      getitem x (str ''bitmapResolution'') = Inl KeyError"
  have r1: "?R x" if "raster_generate_glyph ext f n l dr = (Inr x, dr')" for x f n l dr dr'
    using raster_generate_glyph_Inr [OF that] by (auto simp: raster_costume_fields)
  have v1: "?V x" if "vector_generate_glyph ext f n l dr = (Inr x, dr')" for x f n l dr dr'
    using vector_generate_glyph_Inr [OF that] by (auto simp: vector_costume_fields)
  have "\<forall>g\<in>set (raster_generate_glyphs ext rfonts rchars).
       \<forall>dir d dir'. g dir = (Inr d, dir') \<longrightarrow> ?R d"
    using raster_steps r1 by blast
  from pull_set [OF assms(3) this] have r2: "\<forall>x\<in>set ds. ?R x" .
  have "\<forall>g\<in>set (vector_generate_glyphs ext vfonts vchars).
       \<forall>dir d dir'. g dir = (Inr d, dir') \<longrightarrow> ?V d"
    using vector_steps v1 by blast
  from pull_set [OF assms(4) this] have v2: "\<forall>x\<in>set es. ?V x" .
  have dims: "raster_width = 240 \<and> raster_height = 320 \<and> vector_width = 40 \<and> vector_height = 50"
    by (simp add: raster_width_def raster_height_def vector_width_def vector_height_def)
  show ?thesis
    using r1 [OF assms(1)] v1 [OF assms(2)] r2 v2 dims by simp
qed

theorem costume_geometry_witness:
  "\<exists>s0 s1 s2 s3 rdir1 vdir1 dir' dir''.
     raster_generate_glyph toy_ext (str ''S.ttf'') (str ''sans-a'') (str ''label:a'') Map.empty =
       (Inr (raster_costume (toy_digest 7) (str ''sans-a'')), rdir1) \<and>
     vector_generate_glyph toy_ext (str ''Serif'') (str ''serif-a'') (str ''a'') Map.empty =
       (Inr (vector_costume (hexdigest toy_ext s0) (str ''serif-a'')), vdir1) \<and>
     pull (raster_generate_glyphs toy_ext [ex_rfont] (str ''a<'')) Map.empty =
       (([raster_costume (toy_digest 7) (str ''sans-replaceable''),
          raster_costume (toy_digest 7) (str ''sans-a''),
          raster_costume (toy_digest 7) (str ''sans-special-less-than-sign'')], None), dir') \<and>
     pull (vector_generate_glyphs toy_ext [ex_vfont] (str ''a<'')) Map.empty =
       (([vector_costume (hexdigest toy_ext s1) (str ''serif-replaceable''),
          vector_costume (hexdigest toy_ext s2) (str ''serif-a''),
          vector_costume (hexdigest toy_ext s3) (str ''serif-special-less-than-sign'')], None),
        dir'') \<and>
     getitem (raster_costume (toy_digest 7) (str ''sans-a'')) (str ''rotationCenterX'') =
       Inr (JInt 120) \<and>
     getitem (raster_costume (toy_digest 7) (str ''sans-a'')) (str ''rotationCenterY'') =
       Inr (JInt 160) \<and>
     getitem (raster_costume (toy_digest 7) (str ''sans-a'')) (str ''bitmapResolution'') =
       Inr (JInt 2) \<and>
     getitem (raster_costume (toy_digest 7) (str ''sans-replaceable'')) (str ''rotationCenterY'') =
       Inr (JInt 160) \<and>
     getitem (vector_costume (hexdigest toy_ext s0) (str ''serif-a'')) (str ''rotationCenterX'') =
       Inr (JInt 20) \<and>
     getitem (vector_costume (hexdigest toy_ext s0) (str ''serif-a'')) (str ''rotationCenterY'') =
       Inr (JInt 25) \<and>
     getitem (vector_costume (hexdigest toy_ext s0) (str ''serif-a'')) (str ''bitmapResolution'') =
       Inl KeyError \<and>
     getitem (vector_costume (hexdigest toy_ext s1) (str ''serif-replaceable''))
       (str ''bitmapResolution'') = Inl KeyError"
proof -
  from toy_raster_glyph obtain rdir1 where
    g: "raster_generate_glyph toy_ext (str ''S.ttf'') (str ''sans-a'') (str ''label:a'') Map.empty =
       (Inr (raster_costume (toy_digest 7) (str ''sans-a'')), rdir1)"
    by blast
  from toy_vector_glyph obtain s0 vdir1 where
    h: "vector_generate_glyph toy_ext (str ''Serif'') (str ''serif-a'') (str ''a'') Map.empty =
       (Inr (vector_costume (hexdigest toy_ext s0) (str ''serif-a'')), vdir1)"
    by blast
  from toy_raster_run obtain dir' where
    r: "pull (raster_generate_glyphs toy_ext [ex_rfont] (str ''a<'')) Map.empty =
       (([raster_costume (toy_digest 7) (str ''sans-replaceable''),
          raster_costume (toy_digest 7) (str ''sans-a''),
          raster_costume (toy_digest 7) (str ''sans-special-less-than-sign'')], None), dir')"
    by blast
  from toy_vector_run obtain s1 s2 s3 dir'' where
    v: "pull (vector_generate_glyphs toy_ext [ex_vfont] (str ''a<'')) Map.empty =
       (([vector_costume (hexdigest toy_ext s1) (str ''serif-replaceable''),
          vector_costume (hexdigest toy_ext s2) (str ''serif-a''),
          vector_costume (hexdigest toy_ext s3) (str ''serif-special-less-than-sign'')], None),
        dir'')"
    by blast
  note t = costume_geometry [OF g h r v]
  have t1: "getitem (raster_costume (toy_digest 7) (str ''sans-a'')) (str ''rotationCenterX'') =
       Inr (JInt 120)"
    "getitem (raster_costume (toy_digest 7) (str ''sans-a'')) (str ''rotationCenterY'') =
       Inr (JInt 160)"
    "getitem (raster_costume (toy_digest 7) (str ''sans-a'')) (str ''bitmapResolution'') =
       Inr (JInt 2)"
    "getitem (raster_costume (toy_digest 7) (str ''sans-replaceable'')) (str ''rotationCenterY'') =
       Inr (JInt 160)"
    "getitem (vector_costume (hexdigest toy_ext s0) (str ''serif-a'')) (str ''rotationCenterX'') =
       Inr (JInt 20)"
    "getitem (vector_costume (hexdigest toy_ext s0) (str ''serif-a'')) (str ''rotationCenterY'') =
       Inr (JInt 25)"
    "getitem (vector_costume (hexdigest toy_ext s0) (str ''serif-a'')) (str ''bitmapResolution'') =
       Inl KeyError"
    "getitem (vector_costume (hexdigest toy_ext s1) (str ''serif-replaceable''))
       (str ''bitmapResolution'') = Inl KeyError"
    using t by simp_all
  show ?thesis
    by (rule exI [of _ s0], rule exI [of _ s1], rule exI [of _ s2], rule exI [of _ s3],
        rule exI [of _ rdir1], rule exI [of _ vdir1], rule exI [of _ dir'],
        rule exI [of _ dir''], intro conjI g h r v t1)
qed

end
